theory Spec2Isabelle
  imports Complex_Main
begin

section \<open>Data model of \<open>solvers/c3d_local_fix.py\<close>\<close>

subsection \<open>Scalars\<close>

text \<open>
  Learning rates, loss weights, losses and accuracies are Python floats or one-element
  torch tensors. Finite values are idealised as reals (rounding and overflow are not
  modelled); the special values and the IEEE 754 rules for them are kept, because a
  weighted sum meets them as soon as one of its terms is not finite.
\<close>

datatype fval = Fin real | PInf | NInf | NaN

fun fmul :: "fval \<Rightarrow> fval \<Rightarrow> fval" where
  "fmul NaN _ = NaN"
| "fmul _ NaN = NaN"
| "fmul (Fin a) (Fin b) = Fin (a * b)"
| "fmul (Fin a) PInf = (if a = 0 then NaN else if 0 < a then PInf else NInf)"
| "fmul (Fin a) NInf = (if a = 0 then NaN else if 0 < a then NInf else PInf)"
| "fmul PInf (Fin b) = (if b = 0 then NaN else if 0 < b then PInf else NInf)"
| "fmul NInf (Fin b) = (if b = 0 then NaN else if 0 < b then NInf else PInf)"
| "fmul PInf PInf = PInf"
| "fmul PInf NInf = NInf"
| "fmul NInf PInf = NInf"
| "fmul NInf NInf = PInf"

text \<open>The quotient of a sum by a positive count, as a meter's average needs it.\<close>

fun fdivn :: "fval \<Rightarrow> nat \<Rightarrow> fval" where
  "fdivn (Fin a) n = Fin (a / real n)"
| "fdivn v n = v"

fun fadd :: "fval \<Rightarrow> fval \<Rightarrow> fval" where
  "fadd NaN _ = NaN"
| "fadd _ NaN = NaN"
| "fadd (Fin a) (Fin b) = Fin (a + b)"
| "fadd (Fin a) PInf = PInf"
| "fadd (Fin a) NInf = NInf"
| "fadd PInf (Fin b) = PInf"
| "fadd NInf (Fin b) = NInf"
| "fadd PInf PInf = PInf"
| "fadd NInf NInf = NInf"
| "fadd PInf NInf = NaN"
| "fadd NInf PInf = NaN"

subsection \<open>Errors and results\<close>

text \<open>
  Every \<open>raise\<close> of the source, and every failing subscript, modulo or conversion, is a
  value. An exception leaves the solver object with the mutations made so far, so the
  error comes with the state at the point of the raise.
\<close>

datatype error =
    ValueError          \<comment> \<open>\<open>raise ValueError()\<close> in \<open>build_optimizer\<close>\<close>
  | ZeroDivisionError   \<comment> \<open>\<open>x % 0\<close>, or the average of an empty meter\<close>
  | KeyError            \<comment> \<open>a missing dictionary key\<close>
  | IndexError          \<comment> \<open>a list subscript out of range\<close>
  | TypeError           \<comment> \<open>\<open>load_state_dict\<close> on something that is no state dictionary\<close>
  | FileNotFoundError   \<comment> \<open>\<open>torch.load\<close> of a file that does not exist\<close>
  | TensorItemError     \<comment> \<open>\<open>Tensor.item()\<close> on a tensor that has not exactly one element\<close>

type_synonym ('a, 's) res = "(error \<times> 's) + ('a \<times> 's)"

subsection \<open>Optimizers and checkpoints\<close>

text \<open>
  An optimizer holds its current learning rate (torch keeps it in \<open>param_groups\<close>, which
  is part of \<open>state_dict()\<close>) and its internal slots (momentum buffers, Adam moments),
  which stay opaque. \<open>state_dict()\<close> reads the whole of it, \<open>load_state_dict\<close> replaces it.
\<close>

record 'o optim =
  lr :: fval
  slots :: 'o

text \<open>
  A checkpoint file holds a Python dictionary from strings to objects. The objects that
  occur are an iteration number, a model state dictionary and optimizer state
  dictionaries; Python checks none of this before the value is used.
\<close>

datatype ('m, 'o) ckpt_value =
    Iteration int
  | Model_state 'm
  | Optim_state "'o optim"

type_synonym ('m, 'o) ckpt = "string \<rightharpoonup> ('m, 'o) ckpt_value"

subsection \<open>Observable output\<close>

text \<open>
  \<open>print_log\<close> lines are kept structured (the formatting of numbers is not modelled);
  \<open>writer.add_scalar\<close> keeps its tag, value and step. The calls into \<open>save\<close>, \<open>_test\<close>,
  \<open>show_info\<close>, the model and autograd are recorded too, with the value of the iteration
  counter at the call where the source has one at hand.
\<close>

datatype logline =
    Samples_in_train nat
  | Samples_in_test nat
  | Architecture
  | Parameters
  | Configurations
  | Save_checkpoint_to string
  | Load_weights_and_optim_from string
  | Load_weights_from string
  | Iter_line int int fval fval fval fval fval fval fval fval fval
      \<comment> \<open>iter, num\_iter, data time, model time, three learning rates, two loss weights,
          \<open>lossNum\<close> and \<open>localNum\<close> averages\<close>
  | Test_Full
  | Test_Local
  | Best_summary "fval list" int string real
      \<comment> \<open>best accuracy, best iteration, work directory, elapsed time\<close>

datatype event =
    Print logline
  | Add_scalar string fval int
  | Call_save int
  | Call_test int
  | Call_show_info
  | Call_forward bool bool    \<comment> \<open>the model's training flag and torch's gradient mode\<close>
  | Call_backward fval        \<comment> \<open>\<open>loss.backward()\<close>, with the value of \<open>loss\<close>\<close>

subsection \<open>The solver object\<close>

record meter =
  msum :: fval
  mcount :: nat

record ('m, 'o, 'g) solver =
  iter :: int
  model :: 'm                               \<comment> \<open>\<open>self.model.module.state_dict()\<close>\<close>
  training :: bool                          \<comment> \<open>set by \<open>model.train()\<close>, cleared by \<open>model.eval()\<close>\<close>
  grads :: 'g                               \<comment> \<open>the \<open>.grad\<close> buffers of the parameters\<close>
  optimizer_backbone :: "'o optim"
  optimizer_top :: "'o optim"
  optimizer_local :: "'o optim"
  best_acc :: "fval list"
  best_iter :: int
  grad_enabled :: bool                      \<comment> \<open>torch's global gradient mode\<close>
  files :: "string \<rightharpoonup> ('m, 'o) ckpt"       \<comment> \<open>the file system\<close>
  out :: "event list"                       \<comment> \<open>output so far, oldest first\<close>
  ticks :: nat                              \<comment> \<open>number of \<open>time.time()\<close> calls so far\<close>
  train_pos :: nat                          \<comment> \<open>batches pulled from the train loader\<close>

definition emit :: "event \<Rightarrow> ('m, 'o, 'g) solver \<Rightarrow> ('m, 'o, 'g) solver" where
  "emit e s = s\<lparr>out := out s @ [e]\<rparr>"

definition print_log :: "logline \<Rightarrow> ('m, 'o, 'g) solver \<Rightarrow> ('m, 'o, 'g) solver" where
  "print_log l s = emit (Print l) s"

section \<open>Checkpoints\<close>

text \<open>\<open>save_checkpoint\<close>, source lines 67 to 77.\<close>

definition save_checkpoint ::
  "string \<Rightarrow> ('m, 'o, 'g) solver \<Rightarrow> int \<times> ('m, 'o, 'g) solver" where
  "save_checkpoint filename s =
     (let state = [''iteration'' \<mapsto> Iteration (iter s),
                   ''model'' \<mapsto> Model_state (model s),
                   ''optimizer_backbone'' \<mapsto> Optim_state (optimizer_backbone s),
                   ''optimizer_top'' \<mapsto> Optim_state (optimizer_top s),
                   ''optimizer_local'' \<mapsto> Optim_state (optimizer_local s)];
          s1 = s\<lparr>files := (files s)(filename \<mapsto> state)\<rparr>;
          s2 = print_log (Save_checkpoint_to filename) s1
      in (iter s, s2))"

text \<open>
  \<open>optimizer.load_state_dict(state[key])\<close>: the subscript fails on a missing key, the
  call on a value that is no optimizer state.
\<close>

definition optim_entry ::
  "('m, 'o) ckpt \<Rightarrow> string \<Rightarrow> error + 'o optim" where
  "optim_entry state key =
     (case state key of
        None \<Rightarrow> Inl KeyError
      | Some (Optim_state ob) \<Rightarrow> Inr ob
      | Some _ \<Rightarrow> Inl TypeError)"

text \<open>
  \<open>load_checkpoint\<close>, source lines 79 to 90. It returns the object stored under
  \<open>'iteration'\<close> as it is, and does not assign \<open>self.iter\<close>.
\<close>

definition load_checkpoint ::
  "string \<Rightarrow> bool \<Rightarrow> ('m, 'o, 'g) solver \<Rightarrow> (('m, 'o) ckpt_value, ('m, 'o, 'g) solver) res" where
  "load_checkpoint filename optim s =
     (case files s filename of
        None \<Rightarrow> Inl (FileNotFoundError, s)
      | Some state \<Rightarrow>
         (case state ''iteration'' of
            None \<Rightarrow> Inl (KeyError, s)
          | Some it \<Rightarrow>
             (case state ''model'' of
                None \<Rightarrow> Inl (KeyError, s)
              | Some (Model_state m) \<Rightarrow>
                 (let s1 = s\<lparr>model := m\<rparr> in
                  if optim then
                    (case optim_entry state ''optimizer_backbone'' of
                       Inl e \<Rightarrow> Inl (e, s1)
                     | Inr ob \<Rightarrow>
                        (let s2 = s1\<lparr>optimizer_backbone := ob\<rparr> in
                         case optim_entry state ''optimizer_top'' of
                           Inl e \<Rightarrow> Inl (e, s2)
                         | Inr ot \<Rightarrow>
                            (let s3 = s2\<lparr>optimizer_top := ot\<rparr> in
                             case optim_entry state ''optimizer_local'' of
                               Inl e \<Rightarrow> Inl (e, s3)
                             | Inr ol \<Rightarrow>
                                (let s4 = s3\<lparr>optimizer_local := ol\<rparr> in
                                 Inr (it, print_log (Load_weights_and_optim_from filename) s4)))))
                  else Inr (it, print_log (Load_weights_from filename) s1))
              | Some _ \<Rightarrow> Inl (TypeError, s))))"

section \<open>Configuration, data and collaborators\<close>

text \<open>The fields of \<open>self.cfg\<close> that the source reads.\<close>

record cfg =
  optimizer :: string
  log_interval :: int
  test_interval :: int
  num_iter :: int
  test_before_train :: bool
  print_model :: bool
  target_acc :: "string option"   \<comment> \<open>\<open>getattr(self.cfg, 'target_acc', 'full')\<close>\<close>

text \<open>
  A batch of a data loader: the sequence tensor, the view and sequence type strings of
  its samples, and the label tensor with one entry per sample.
\<close>

record 't batch =
  seq :: 't
  view :: "string list"
  seq_type :: "string list"
  label :: "int list"

text \<open>
  What the source calls and this file of the repository does not define: the torch
  primitives, and the classes of \<open>utils\<close> and the base class \<open>BaselineSolver\<close>. They are
  parameters. The train loader gives its \<open>k\<close>-th batch, or \<open>None\<close> once it is exhausted;
  the test loader is a finite list. The schedules are the \<open>step\<close> methods of
  \<open>LearningRate\<close> and \<open>LossWeightDecay\<close> as functions of the iteration number; the model
  is a function of its mode, its parameters and the input; \<open>now\<close> gives the reading of
  the \<open>k\<close>-th \<open>time.time()\<close> call.
\<close>

record ('m, 'o, 'g, 't) env =
  trainloader :: "nat \<Rightarrow> 't batch option"
  testloader :: "'t batch list"
  train_samples :: nat
  test_samples :: nat
  init_model :: 'm
  build_sgd :: "string list \<Rightarrow> 'o optim"
  build_adam :: "string list \<Rightarrow> 'o optim"
  lr_scheduler_backbone :: "int \<Rightarrow> fval"
  lr_scheduler_top :: "int \<Rightarrow> fval"
  lr_scheduler_local :: "int \<Rightarrow> fval"
  early_loss_weight :: "int \<Rightarrow> fval"
  local_loss_weight :: "int \<Rightarrow> fval"
  forward :: "bool \<Rightarrow> 'm \<Rightarrow> 't \<Rightarrow> 't \<times> 't"
  criterion_early :: "'t \<Rightarrow> int list \<Rightarrow> fval \<times> fval"
  zero_grad :: "'o optim \<Rightarrow> 'g \<Rightarrow> 'g"
  backward :: "'m \<Rightarrow> 't batch \<Rightarrow> fval \<Rightarrow> fval \<Rightarrow> 'g \<Rightarrow> 'g"
  step :: "'o optim \<Rightarrow> 'g \<Rightarrow> 'm \<Rightarrow> 'o optim \<times> 'm"
  compute_accuracy :: "'t list \<Rightarrow> string list \<Rightarrow> string list \<Rightarrow> int list \<Rightarrow> fval list"
  better :: "fval list \<Rightarrow> fval list \<Rightarrow> bool"
  ckpt_file :: "int \<Rightarrow> string"
  load :: "('m, 'o, 'g) solver \<Rightarrow> (unit, ('m, 'o, 'g) solver) res"
  now :: "nat \<Rightarrow> real"
  work_dir :: string

definition read_clock ::
  "('m, 'o, 'g, 't) env \<Rightarrow> ('m, 'o, 'g) solver \<Rightarrow> real \<times> ('m, 'o, 'g) solver" where
  "read_clock env s = (now env (ticks s), s\<lparr>ticks := ticks s + 1\<rparr>)"

section \<open>Setup\<close>

text \<open>\<open>build_optimizer\<close>, source lines 31 to 65.\<close>

definition build_optimizer ::
  "('m, 'o, 'g, 't) env \<Rightarrow> cfg \<Rightarrow> ('m, 'o, 'g) solver \<Rightarrow> (unit, ('m, 'o, 'g) solver) res" where
  "build_optimizer env c s =
     (if optimizer c = ''SGD'' then
        Inr ((), s\<lparr>optimizer_backbone := build_sgd env [''backbone''],
                   optimizer_top := build_sgd env [''spatial_pool'', ''temporal_pool'', ''hpm''],
                   optimizer_local := build_sgd env [''local'']\<rparr>)
      else if optimizer c = ''Adam'' then
        Inr ((), s\<lparr>optimizer_backbone := build_adam env [''backbone''],
                   optimizer_top := build_adam env [''spatial_pool'', ''temporal_pool'', ''hpm''],
                   optimizer_local := build_adam env [''local'']\<rparr>)
      else Inl (ValueError, s))"

section \<open>Meters\<close>

text \<open>
  Modelled from the spec: \<open>utils.AverageMeter\<close> is not in this file of the repository.
  Section 4.2: \<open>update\<close> adds a value to a running sum and count, the average is the sum
  over the count and fails on a count of zero, a reset zeroes both. \<open>meters\<close> is a
  \<open>defaultdict\<close>: a name that is read for the first time gets a fresh meter.
\<close>

definition fresh_meter :: meter where
  "fresh_meter = \<lparr>msum = Fin 0, mcount = 0\<rparr>"

definition get_meter :: "(string \<rightharpoonup> meter) \<Rightarrow> string \<Rightarrow> meter" where
  "get_meter ms name = (case ms name of None \<Rightarrow> fresh_meter | Some m \<Rightarrow> m)"

definition update_meter :: "string \<Rightarrow> fval \<Rightarrow> (string \<rightharpoonup> meter) \<Rightarrow> (string \<rightharpoonup> meter)" where
  "update_meter name v ms =
     (let m = get_meter ms name
      in ms(name \<mapsto> \<lparr>msum = fadd (msum m) v, mcount = mcount m + 1\<rparr>))"

definition meter_avg :: "(string \<rightharpoonup> meter) \<Rightarrow> string \<Rightarrow> error + fval" where
  "meter_avg ms name =
     (let m = get_meter ms name
      in if mcount m = 0 then Inl ZeroDivisionError else Inr (fdivn (msum m) (mcount m)))"

definition reset_meters :: "(string \<rightharpoonup> meter) \<Rightarrow> (string \<rightharpoonup> meter)" where
  "reset_meters ms = (\<lambda>name. map_option (\<lambda>m. fresh_meter) (ms name))"

section \<open>The evaluation pass\<close>

text \<open>
  The loop of \<open>_test\<close>, source lines 216 to 226. The model is called in the mode it is
  in; \<open>label.item()\<close> succeeds on a label tensor of exactly one element. The reshaping
  of the features and their copy to the host keep the values and are not modelled.
\<close>

type_synonym 't collected = "'t list \<times> 't list \<times> string list \<times> string list \<times> int list"

fun test_loop ::
  "('m, 'o, 'g, 't) env \<Rightarrow> 't batch list \<Rightarrow> 't collected \<Rightarrow> ('m, 'o, 'g) solver
     \<Rightarrow> ('t collected, ('m, 'o, 'g) solver) res" where
  "test_loop env [] acc s = Inr (acc, s)"
| "test_loop env (x # xs) (full_feat_list, local_feat_list, view_list, seq_type_list, label_list) s =
     (let s1 = emit (Call_forward (training s) (grad_enabled s)) s;
          (feat_full, feat_local) = forward env (training s1) (model s1) (seq x)
      in case label x of
           [l] \<Rightarrow> test_loop env xs
                    (full_feat_list @ [feat_full], local_feat_list @ [feat_local],
                     view_list @ view x, seq_type_list @ seq_type x, label_list @ [l]) s1
         | _ \<Rightarrow> Inl (TensorItemError, s1))"

text \<open>
  A run of \<open>self.writer.add_scalar(tag, values[i], self.iter)\<close> statements; a subscript
  out of range stops it.
\<close>

fun add_scalars ::
  "(string \<times> fval list \<times> nat) list \<Rightarrow> ('m, 'o, 'g) solver \<Rightarrow> (unit, ('m, 'o, 'g) solver) res" where
  "add_scalars [] s = Inr ((), s)"
| "add_scalars ((tag, values, i) # rest) s =
     (if i < length values
      then add_scalars rest (emit (Add_scalar tag (values ! i) (iter s)) s)
      else Inl (IndexError, s))"

text \<open>Source lines 235 to 244: which scalars \<open>_test\<close> writes, with their subscripts.\<close>

definition test_scalars :: "fval list \<Rightarrow> fval list \<Rightarrow> (string \<times> fval list \<times> nat) list" where
  "test_scalars acc_full acc_local =
     (if 1 < length acc_full then
        [(''test/fullAccNM'', acc_full, 0), (''test/fullAccBG'', acc_full, 1),
         (''test/fullAccCL'', acc_full, 2), (''test/localAccNM'', acc_local, 0),
         (''test/localAccBG'', acc_local, 1), (''test/localAccCL'', acc_local, 2)]
      else
        [(''test/fullAcc'', acc_full, 0), (''test/localAcc'', acc_local, 0)])"

text \<open>\<open>_test\<close> after its loop, source lines 228 to 247.\<close>

definition test_report ::
  "('m, 'o, 'g, 't) env \<Rightarrow> cfg \<Rightarrow> 't collected \<Rightarrow> ('m, 'o, 'g) solver
     \<Rightarrow> (fval list, ('m, 'o, 'g) solver) res" where
  "test_report env c acc s =
     (case acc of (full_feat_list, local_feat_list, view_list, seq_type_list, label_list) \<Rightarrow>
        (let s1 = print_log Test_Full s;
             acc_full = compute_accuracy env full_feat_list view_list seq_type_list label_list;
             s2 = print_log Test_Local s1;
             acc_local = compute_accuracy env local_feat_list view_list seq_type_list label_list
         in case add_scalars (test_scalars acc_full acc_local) s2 of
              Inl e \<Rightarrow> Inl e
            | Inr (u, s3) \<Rightarrow>
               (case target_acc c of
                  None \<Rightarrow> Inr (acc_full, s3)
                | Some k \<Rightarrow>
                   if k = ''full'' then Inr (acc_full, s3)
                   else if k = ''local'' then Inr (acc_local, s3)
                   else Inl (KeyError, s3))))"

text \<open>\<open>_test\<close>, source lines 207 to 247.\<close>

definition private_test ::
  "('m, 'o, 'g, 't) env \<Rightarrow> cfg \<Rightarrow> ('m, 'o, 'g) solver \<Rightarrow> (fval list, ('m, 'o, 'g) solver) res" where
  "private_test env c s =
     (let s1 = (emit (Call_test (iter s)) s)\<lparr>training := False\<rparr>
      in case test_loop env (testloader env) ([], [], [], [], []) s1 of
           Inl e \<Rightarrow> Inl e
         | Inr (acc, s2) \<Rightarrow> test_report env c acc s2)"

section \<open>One training iteration\<close>

text \<open>The variables of \<open>train\<close> that live across iterations.\<close>

record loop_vars =
  meters :: "string \<rightharpoonup> meter"
  end_time :: real

text \<open>Source lines 132 to 134.\<close>

definition begin_iteration ::
  "('m, 'o, 'g, 't) env \<Rightarrow> loop_vars \<Rightarrow> ('m, 'o, 'g) solver \<Rightarrow> loop_vars \<times> ('m, 'o, 'g) solver" where
  "begin_iteration env lv s =
     (let s1 = s\<lparr>training := True\<rparr>;
          (t1, s2) = read_clock env s1;
          ms = update_meter ''dataTime'' (Fin (t1 - end_time lv)) (meters lv);
          (t2, s3) = read_clock env s2
      in (lv\<lparr>meters := ms, end_time := t2\<rparr>, s3))"

text \<open>
  Modelled from the spec: \<open>utils.LearningRate\<close> is not in this file of the repository.
  Sections 3 and 4.3: a learning-rate controller is a scheduled value bound to its
  optimizer; \<open>step(i)\<close> gives the rate of iteration \<open>i\<close>, which the optimizer then uses.
\<close>

definition lr_step :: "(int \<Rightarrow> fval) \<Rightarrow> int \<Rightarrow> 'o optim \<Rightarrow> fval \<times> 'o optim" where
  "lr_step sched i ob = (sched i, ob\<lparr>lr := sched i\<rparr>)"

record rates =
  lr_backbone :: fval
  lr_top :: fval
  lr_local :: fval
  lw_early :: fval
  lw_local :: fval

text \<open>Source lines 136 to 143: the five scheduled values, then the increment.\<close>

definition schedule ::
  "('m, 'o, 'g, 't) env \<Rightarrow> ('m, 'o, 'g) solver \<Rightarrow> rates \<times> ('m, 'o, 'g) solver" where
  "schedule env s =
     (let (lr_b, ob) = lr_step (lr_scheduler_backbone env) (iter s) (optimizer_backbone s);
          s1 = s\<lparr>optimizer_backbone := ob\<rparr>;
          (lr_t, ot) = lr_step (lr_scheduler_top env) (iter s1) (optimizer_top s1);
          s2 = s1\<lparr>optimizer_top := ot\<rparr>;
          (lr_l, ol) = lr_step (lr_scheduler_local env) (iter s2) (optimizer_local s2);
          s3 = s2\<lparr>optimizer_local := ol\<rparr>;
          lw_e = early_loss_weight env (iter s3);
          lw_l = local_loss_weight env (iter s3);
          s4 = s3\<lparr>iter := iter s3 + 1\<rparr>
      in (\<lparr>lr_backbone = lr_b, lr_top = lr_t, lr_local = lr_l, lw_early = lw_e, lw_local = lw_l\<rparr>,
          s4))"

record losses =
  early_loss :: fval
  loss_num :: fval
  local_loss :: fval
  local_loss_num :: fval
  loss :: fval

text \<open>Source lines 147 to 151.\<close>

definition forward_loss ::
  "('m, 'o, 'g, 't) env \<Rightarrow> 't batch \<Rightarrow> rates \<Rightarrow> ('m, 'o, 'g) solver
     \<Rightarrow> losses \<times> ('m, 'o, 'g) solver" where
  "forward_loss env b r s =
     (let s1 = emit (Call_forward (training s) (grad_enabled s)) s;
          (feat_global, feat_local) = forward env (training s1) (model s1) (seq b);
          (el, n) = criterion_early env feat_global (label b);
          (ll, ln) = criterion_early env feat_local (label b)
      in (\<lparr>early_loss = el, loss_num = n, local_loss = ll, local_loss_num = ln,
           loss = fadd (fmul (lw_early r) el) (fmul (lw_local r) ll)\<rparr>, s1))"

text \<open>
  Source lines 154 to 160. \<open>loss.backward()\<close> adds the gradient of the weighted loss to
  the gradient buffers; each optimizer then updates the model from them, in the order
  backbone, top, local.
\<close>

definition backward_step ::
  "('m, 'o, 'g, 't) env \<Rightarrow> 't batch \<Rightarrow> rates \<Rightarrow> losses \<Rightarrow> ('m, 'o, 'g) solver
     \<Rightarrow> ('m, 'o, 'g) solver" where
  "backward_step env b r l s =
     (let s1 = s\<lparr>grads := zero_grad env (optimizer_backbone s) (grads s)\<rparr>;
          s2 = s1\<lparr>grads := zero_grad env (optimizer_top s1) (grads s1)\<rparr>;
          s3 = s2\<lparr>grads := zero_grad env (optimizer_local s2) (grads s2)\<rparr>;
          s4 = emit (Call_backward (loss l)) s3;
          s5 = s4\<lparr>grads := backward env (model s4) b (lw_early r) (lw_local r) (grads s4)\<rparr>;
          (ob, m1) = step env (optimizer_backbone s5) (grads s5) (model s5);
          s6 = s5\<lparr>optimizer_backbone := ob, model := m1\<rparr>;
          (ot, m2) = step env (optimizer_top s6) (grads s6) (model s6);
          s7 = s6\<lparr>optimizer_top := ot, model := m2\<rparr>;
          (ol, m3) = step env (optimizer_local s7) (grads s7) (model s7)
      in s7\<lparr>optimizer_local := ol, model := m3\<rparr>)"

text \<open>Source lines 162 to 166.\<close>

definition update_meters ::
  "('m, 'o, 'g, 't) env \<Rightarrow> losses \<Rightarrow> loop_vars \<Rightarrow> ('m, 'o, 'g) solver
     \<Rightarrow> loop_vars \<times> ('m, 'o, 'g) solver" where
  "update_meters env l lv s =
     (let (t, s1) = read_clock env s;
          ms1 = update_meter ''modelTime'' (Fin (t - end_time lv)) (meters lv);
          ms2 = update_meter ''earlyLoss'' (early_loss l) ms1;
          ms3 = update_meter ''localLoss'' (local_loss l) ms2;
          ms4 = update_meter ''lossNum'' (loss_num l) ms3;
          ms5 = update_meter ''localNum'' (local_loss_num l) ms4
      in (lv\<lparr>meters := ms5\<rparr>, s1))"

text \<open>The loop of source lines 180 and 181.\<close>

fun log_scalars ::
  "(string \<rightharpoonup> meter) \<Rightarrow> string list \<Rightarrow> ('m, 'o, 'g) solver \<Rightarrow> (unit, ('m, 'o, 'g) solver) res" where
  "log_scalars ms [] s = Inr ((), s)"
| "log_scalars ms (i # rest) s =
     (case meter_avg ms i of
        Inl e \<Rightarrow> Inl (e, s)
      | Inr v \<Rightarrow> log_scalars ms rest (emit (Add_scalar (''train/'' @ i) v (iter s)) s))"

text \<open>
  Source lines 169 to 187. Python's \<open>%\<close> raises on a zero divisor and otherwise agrees
  with \<open>mod\<close> on the integers.
\<close>

definition show_log ::
  "('m, 'o, 'g, 't) env \<Rightarrow> cfg \<Rightarrow> rates \<Rightarrow> loop_vars \<Rightarrow> ('m, 'o, 'g) solver
     \<Rightarrow> (loop_vars, ('m, 'o, 'g) solver) res" where
  "show_log env c r lv s =
     (if log_interval c = 0 then Inl (ZeroDivisionError, s)
      else if iter s mod log_interval c = 0 then
        (case meter_avg (meters lv) ''lossNum'' of
           Inl e \<Rightarrow> Inl (e, s)
         | Inr num \<Rightarrow>
            (case meter_avg (meters lv) ''localNum'' of
               Inl e \<Rightarrow> Inl (e, s)
             | Inr lnum \<Rightarrow>
                (let s1 = print_log
                            (Iter_line (iter s) (num_iter c)
                               (msum (get_meter (meters lv) ''dataTime''))
                               (msum (get_meter (meters lv) ''modelTime''))
                               (lr_backbone r) (lr_top r) (lr_local r)
                               (lw_early r) (lw_local r) num lnum) s
                 in case log_scalars (meters lv)
                           [''earlyLoss'', ''localLoss'', ''lossNum'', ''localNum''] s1 of
                      Inl e \<Rightarrow> Inl e
                    | Inr (u, s2) \<Rightarrow>
                       Inr (lv\<lparr>meters := reset_meters (meters lv)\<rparr>, emit Call_show_info s2))))
      else Inr (lv, s))"

text \<open>
  Modelled from the spec: \<open>BaselineSolver.save\<close> is not in this file of the repository.
  Sections 2 and 4.6: the coordinator's checkpoint save writes a checkpoint keyed by
  the iteration number.
\<close>

definition save :: "('m, 'o, 'g, 't) env \<Rightarrow> ('m, 'o, 'g) solver \<Rightarrow> ('m, 'o, 'g) solver" where
  "save env s = snd (save_checkpoint (ckpt_file env (iter s)) s)"

text \<open>
  Modelled from the spec: \<open>BaselineSolver.collect\<close> is not in this file of the repository.
  Sections 3 and 4.6: the best score and best iteration are replaced when the new
  evaluation improves on the best score, and only then.
\<close>

definition collect ::
  "('m, 'o, 'g, 't) env \<Rightarrow> fval list \<Rightarrow> ('m, 'o, 'g) solver \<Rightarrow> ('m, 'o, 'g) solver" where
  "collect env acc s =
     (if better env acc (best_acc s) then s\<lparr>best_acc := acc, best_iter := iter s\<rparr> else s)"

text \<open>Source lines 193 to 195.\<close>

definition periodic_test ::
  "('m, 'o, 'g, 't) env \<Rightarrow> cfg \<Rightarrow> ('m, 'o, 'g) solver \<Rightarrow> (unit, ('m, 'o, 'g) solver) res" where
  "periodic_test env c s =
     (if test_interval c = 0 then Inl (ZeroDivisionError, s)
      else if iter s mod test_interval c = 0 then
        (case private_test env c s of
           Inl e \<Rightarrow> Inl e
         | Inr (acc, s1) \<Rightarrow> Inr ((), collect env acc s1))
      else Inr ((), s))"

text \<open>
  The body of the loop of \<open>train\<close>, source lines 132 to 195, for one batch. The casts
  and the copy to the device of line 144 keep the values and are not modelled.
\<close>

definition train_iteration ::
  "('m, 'o, 'g, 't) env \<Rightarrow> cfg \<Rightarrow> 't batch \<Rightarrow> loop_vars \<Rightarrow> ('m, 'o, 'g) solver
     \<Rightarrow> (loop_vars, ('m, 'o, 'g) solver) res" where
  "train_iteration env c b lv s =
     (let (lv1, s1) = begin_iteration env lv s;
          (r, s2) = schedule env s1;
          (l, s3) = forward_loss env b r s2;
          s4 = backward_step env b r l s3;
          (lv2, s5) = update_meters env l lv1 s4
      in case show_log env c r lv2 s5 of
           Inl e \<Rightarrow> Inl e
         | Inr (lv3, s6) \<Rightarrow>
            (let s7 = save env (emit (Call_save (iter s6)) s6)
             in case periodic_test env c s7 of
                  Inl e \<Rightarrow> Inl e
                | Inr (u, s8) \<Rightarrow> Inr (lv3, s8)))"

section \<open>The training loop\<close>

text \<open>Source lines 198 to 202: the final summary.\<close>

definition final_summary ::
  "('m, 'o, 'g, 't) env \<Rightarrow> real \<Rightarrow> ('m, 'o, 'g) solver \<Rightarrow> ('m, 'o, 'g) solver" where
  "final_summary env start_time s =
     (let (t, s1) = read_clock env s
      in print_log (Best_summary (best_acc s1) (best_iter s1) (work_dir env) (t - start_time)) s1)"

text \<open>
  The \<open>for\<close> loop of \<open>train\<close>, source lines 131 to 204. It ends when the loader is
  exhausted, when an iteration raises, or at the \<open>return\<close> of line 203; on a loader
  that never ends it need not end at all, and then its value is \<open>None\<close>.
\<close>

partial_function (option) train_loop ::
  "('m, 'o, 'g, 't) env \<Rightarrow> cfg \<Rightarrow> real \<Rightarrow> loop_vars \<Rightarrow> ('m, 'o, 'g) solver
     \<Rightarrow> (unit, ('m, 'o, 'g) solver) res option" where
  "train_loop env c start_time lv s =
     (case trainloader env (train_pos s) of
        None \<Rightarrow> Some (Inr ((), s))
      | Some b \<Rightarrow>
         (case train_iteration env c b lv (s\<lparr>train_pos := train_pos s + 1\<rparr>) of
            Inl e \<Rightarrow> Some (Inl e)
          | Inr (lv1, s1) \<Rightarrow>
             if iter s1 = num_iter c then Some (Inr ((), final_summary env start_time s1))
             else train_loop env c start_time
                    (lv1\<lparr>end_time := fst (read_clock env s1)\<rparr>) (snd (read_clock env s1))))"

text \<open>
  \<open>train\<close>, source lines 99 to 204. \<open>build_data\<close> and \<open>build_model\<close> of the base class
  leave the loaders and a fresh model; \<open>build_loss\<close> (lines 92 to 96) leaves the loss
  kernel and the two loss-weight schedules; \<open>load\<close> of the base class is a parameter.
\<close>

definition train ::
  "('m, 'o, 'g, 't) env \<Rightarrow> cfg \<Rightarrow> ('m, 'o, 'g) solver
     \<Rightarrow> (unit, ('m, 'o, 'g) solver) res option" where
  "train env c s =
     (let s1 = s\<lparr>model := init_model env\<rparr>
      in case build_optimizer env c s1 of
           Inl e \<Rightarrow> Some (Inl e)
         | Inr (u, s2) \<Rightarrow>
            (let (start_time, s3) = read_clock env s2;
                 s4 = s3\<lparr>iter := 0\<rparr>;
                 s5 = print_log (Samples_in_train (train_samples env)) s4;
                 s6 = print_log (Samples_in_test (test_samples env)) s5;
                 s7 = (if print_model c then print_log Parameters (print_log Architecture s6)
                       else s6);
                 s8 = print_log Configurations s7
             in case load env s8 of
                  Inl e \<Rightarrow> Some (Inl e)
                | Inr (u, s9) \<Rightarrow>
                   (case (if test_before_train c then private_test env c s9 else Inr ([], s9)) of
                      Inl e \<Rightarrow> Some (Inl e)
                    | Inr (a, s10) \<Rightarrow>
                       (let s11 = s10\<lparr>best_acc := [Fin 0], best_iter := - 1\<rparr>;
                            (end0, s12) = read_clock env s11
                        in train_loop env c start_time
                             \<lparr>meters = Map.empty, end_time = end0\<rparr>
                             (s12\<lparr>train_pos := 0\<rparr>)))))"

section \<open>A small instance\<close>

text \<open>
  A concrete solver, collaborators and configuration, on which the definitions can be
  run: tensors, parameters and gradients are natural numbers, the loss of a feature
  against a label is the feature, \<open>time.time()\<close> counts its calls.
\<close>

definition solver0 :: "(nat, nat, nat) solver" where
  "solver0 =
     \<lparr>iter = 0, model = 0, training = False, grads = 0,
      optimizer_backbone = \<lparr>lr = Fin 0, slots = 0\<rparr>,
      optimizer_top = \<lparr>lr = Fin 0, slots = 0\<rparr>,
      optimizer_local = \<lparr>lr = Fin 0, slots = 0\<rparr>,
      best_acc = [], best_iter = 0, grad_enabled = True,
      files = Map.empty, out = [], ticks = 0, train_pos = 0\<rparr>"

definition batch0 :: "nat batch" where
  "batch0 = \<lparr>seq = 1, view = [''000''], seq_type = [''nm-01''], label = [4]\<rparr>"

definition batch2 :: "nat batch" where
  "batch2 = \<lparr>seq = 2, view = [''000'', ''018''], seq_type = [''nm-01'', ''nm-02''], label = [4, 5]\<rparr>"

definition env0 :: "(nat, nat, nat, nat) env" where
  "env0 =
     \<lparr>trainloader = (\<lambda>k. Some batch0),
      testloader = [batch0],
      train_samples = 1,
      test_samples = 1,
      init_model = 0,
      build_sgd = (\<lambda>ms. \<lparr>lr = Fin 0, slots = 0\<rparr>),
      build_adam = (\<lambda>ms. \<lparr>lr = Fin 0, slots = 1\<rparr>),
      lr_scheduler_backbone = (\<lambda>i. Fin (real_of_int i)),
      lr_scheduler_top = (\<lambda>i. Fin (real_of_int i + 100)),
      lr_scheduler_local = (\<lambda>i. Fin (real_of_int i + 200)),
      early_loss_weight = (\<lambda>i. Fin 1),
      local_loss_weight = (\<lambda>i. Fin 0),
      forward = (\<lambda>tr m x. (x + m, x + m + 1)),
      criterion_early = (\<lambda>f lb. (Fin (real f), Fin 1)),
      zero_grad = (\<lambda>ob g. 0),
      backward = (\<lambda>m b we wl g. g + 1),
      step = (\<lambda>ob g m. (ob\<lparr>slots := slots ob + g\<rparr>, m + g)),
      compute_accuracy = (\<lambda>fs vs ts ls. [Fin (real (length fs))]),
      better = (\<lambda>a b. False),
      ckpt_file = (\<lambda>i. ''checkpoint''),
      load = (\<lambda>s. Inr ((), s)),
      now = real,
      work_dir = ''work''\<rparr>"

definition cfg0 :: cfg where
  "cfg0 =
     \<lparr>optimizer = ''SGD'', log_interval = 2, test_interval = 5, num_iter = 10,
      test_before_train = False, print_model = False, target_acc = None\<rparr>"

section \<open>Observations on results and output\<close>

text \<open>
  The state a call ends in, whether it returns or raises; the calls to \<open>save\<close> and to
  \<open>_test\<close> that an output records.
\<close>

definition final :: "('a, 's) res \<Rightarrow> 's" where
  "final r = (case r of Inl (e, s) \<Rightarrow> s | Inr (a, s) \<Rightarrow> s)"

fun is_save :: "event \<Rightarrow> bool" where
  "is_save (Call_save n) = True"
| "is_save e = False"

fun test_iter :: "event \<Rightarrow> int list" where
  "test_iter (Call_test n) = [n]"
| "test_iter e = []"

fun backward_of :: "event \<Rightarrow> fval list" where
  "backward_of (Call_backward v) = [v]"
| "backward_of e = []"

fun forward_of :: "event \<Rightarrow> (bool \<times> bool) list" where
  "forward_of (Call_forward tr g) = [(tr, g)]"
| "forward_of e = []"

definition saves :: "event list \<Rightarrow> nat" where
  "saves es = length (filter is_save es)"

definition test_iters :: "event list \<Rightarrow> int list" where
  "test_iters es = concat (map test_iter es)"

definition backwards :: "event list \<Rightarrow> fval list" where
  "backwards es = concat (map backward_of es)"

definition forwards :: "event list \<Rightarrow> (bool \<times> bool) list" where
  "forwards es = concat (map forward_of es)"

text \<open>What the evaluation pass and the output helpers leave alone.\<close>

definition same_but_out :: "('m, 'o, 'g) solver \<Rightarrow> ('m, 'o, 'g) solver \<Rightarrow> bool" where
  "same_but_out s s' \<longleftrightarrow>
     iter s' = iter s \<and> train_pos s' = train_pos s \<and> model s' = model s
     \<and> grad_enabled s' = grad_enabled s \<and> training s' = training s
     \<and> best_acc s' = best_acc s \<and> best_iter s' = best_iter s
     \<and> saves (out s') = saves (out s) \<and> test_iters (out s') = test_iters (out s)
     \<and> backwards (out s') = backwards (out s)"

definition same_counters :: "('m, 'o, 'g) solver \<Rightarrow> ('m, 'o, 'g) solver \<Rightarrow> bool" where
  "same_counters s s' \<longleftrightarrow>
     iter s' = iter s \<and> train_pos s' = train_pos s \<and> grad_enabled s' = grad_enabled s
     \<and> saves (out s') = saves (out s) \<and> test_iters (out s') = test_iters (out s)
     \<and> backwards (out s') = backwards (out s)"

text \<open>The state in which an iteration reaches its logging step.\<close>

definition before_log ::
  "('m, 'o, 'g, 't) env \<Rightarrow> 't batch \<Rightarrow> loop_vars \<Rightarrow> ('m, 'o, 'g) solver
     \<Rightarrow> rates \<times> loop_vars \<times> ('m, 'o, 'g) solver" where
  "before_log env b lv s =
     (let p1 = begin_iteration env lv s;
          p2 = schedule env (snd p1);
          p3 = forward_loss env b (fst p2) (snd p2);
          s4 = backward_step env b (fst p2) (fst p3) (snd p3);
          p5 = update_meters env (fst p3) (fst p1) s4
      in (fst p2, fst p5, snd p5))"

text \<open>The five scheduled values at iteration number \<open>i\<close>.\<close>

definition rates_at :: "('m, 'o, 'g, 't) env \<Rightarrow> int \<Rightarrow> rates" where
  "rates_at env i =
     \<lparr>lr_backbone = lr_scheduler_backbone env i, lr_top = lr_scheduler_top env i,
      lr_local = lr_scheduler_local env i, lw_early = early_loss_weight env i,
      lw_local = local_loss_weight env i\<rparr>"

text \<open>Loop variables and a loss kernel that gives no number on the local features.\<close>

definition lv0 :: loop_vars where
  "lv0 = \<lparr>meters = Map.empty, end_time = 0\<rparr>"

definition env_nan :: "(nat, nat, nat, nat) env" where
  "env_nan = env0\<lparr>criterion_early := (\<lambda>f lb. (if f = 2 then NaN else Fin (real f), Fin 1))\<rparr>"

text \<open>
  The number of test batches the loop of \<open>_test\<close> pulls: every batch up to and
  including the first whose label tensor is not a single element.
\<close>

fun batches_read :: "'t batch list \<Rightarrow> nat" where
  "batches_read [] = 0"
| "batches_read (x # xs) = (if length (label x) = 1 then Suc (batches_read xs) else 1)"

text \<open>
  The two loss terms of an iteration entered in state \<open>s\<close> on batch \<open>b\<close>, in the words
  of the specification: the one loss kernel, against the label of the batch, on the
  global and on the local features of the forward pass in training mode.
\<close>

definition early_term ::
  "('m, 'o, 'g, 't) env \<Rightarrow> 't batch \<Rightarrow> ('m, 'o, 'g) solver \<Rightarrow> fval" where
  "early_term env b s =
     fst (criterion_early env (fst (forward env True (model s) (seq b))) (label b))"

definition local_term ::
  "('m, 'o, 'g, 't) env \<Rightarrow> 't batch \<Rightarrow> ('m, 'o, 'g) solver \<Rightarrow> fval" where
  "local_term env b s =
     fst (criterion_early env (snd (forward env True (model s) (seq b))) (label b))"

text \<open>Whether a call returned rather than raised.\<close>

definition returned :: "('a, 's) res \<Rightarrow> bool" where
  "returned r = (case r of Inl e \<Rightarrow> False | Inr a \<Rightarrow> True)"

section \<open>Properties of the checkpoint functions\<close>

text \<open>
  C3. A checkpoint written by \<open>save_checkpoint\<close> and read back by \<open>load_checkpoint\<close>
  with \<open>optim = True\<close> restores the model state and the three optimizer states that
  were saved, whatever the live iteration counter, model and optimizers have become in
  between, and returns the iteration that was saved; \<open>save_checkpoint\<close> itself returns
  that iteration.
\<close>

theorem checkpoint_round_trip:
  "\<exists>s3. load_checkpoint f True
          ((snd (save_checkpoint f s))\<lparr>iter := i', model := m',
             optimizer_backbone := a', optimizer_top := b', optimizer_local := c'\<rparr>)
        = Inr (Iteration (iter s), s3)
      \<and> fst (save_checkpoint f s) = iter s
      \<and> model s3 = model s
      \<and> optimizer_backbone s3 = optimizer_backbone s
      \<and> optimizer_top s3 = optimizer_top s
      \<and> optimizer_local s3 = optimizer_local s"
  by (simp add: load_checkpoint_def save_checkpoint_def Let_def print_log_def emit_def
      optim_entry_def)

text \<open>
  C4. With \<open>optim = False\<close>, \<open>load_checkpoint\<close> needs the checkpoint to hold only an
  iteration and a model state: whatever else the file holds or lacks, the call
  succeeds, returns the stored iteration, and the solver afterwards is the solver
  before with the model replaced and one log line added, so the three live optimizers
  are as they were.
\<close>

theorem load_weights_only:
  assumes "files s f = Some state"
    and "state ''iteration'' = Some it"
    and "state ''model'' = Some (Model_state m)"
  shows "load_checkpoint f False s = Inr (it, print_log (Load_weights_from f) (s\<lparr>model := m\<rparr>))
       \<and> optimizer_backbone (print_log (Load_weights_from f) (s\<lparr>model := m\<rparr>)) = optimizer_backbone s
       \<and> optimizer_top (print_log (Load_weights_from f) (s\<lparr>model := m\<rparr>)) = optimizer_top s
       \<and> optimizer_local (print_log (Load_weights_from f) (s\<lparr>model := m\<rparr>)) = optimizer_local s
       \<and> model (print_log (Load_weights_from f) (s\<lparr>model := m\<rparr>)) = m"
  using assms by (simp add: load_checkpoint_def Let_def print_log_def emit_def)

theorem load_weights_only_witness:
  "load_checkpoint ''a.pt'' False
     (solver0\<lparr>files := [''a.pt'' \<mapsto> [''iteration'' \<mapsto> Iteration 7, ''model'' \<mapsto> Model_state 3]]\<rparr>)
   = Inr (Iteration 7, print_log (Load_weights_from ''a.pt'')
       (solver0\<lparr>files := [''a.pt'' \<mapsto> [''iteration'' \<mapsto> Iteration 7, ''model'' \<mapsto> Model_state 3]],
                model := 3\<rparr>))"
  using load_weights_only [of
     "solver0\<lparr>files := [''a.pt'' \<mapsto> [''iteration'' \<mapsto> Iteration 7, ''model'' \<mapsto> Model_state 3]]\<rparr>"
     "''a.pt''" "[''iteration'' \<mapsto> Iteration 7, ''model'' \<mapsto> Model_state 3]" "Iteration 7" 3]
  by simp

section \<open>What each step leaves unchanged\<close>

lemma final_simps [simp]: "final (Inl (e, s)) = s" "final (Inr (a, s)) = s"
  by (simp_all add: final_def)

lemma saves_append [simp]: "saves (xs @ ys) = saves xs + saves ys"
  by (simp add: saves_def)

lemma test_iters_append [simp]: "test_iters (xs @ ys) = test_iters xs @ test_iters ys"
  by (simp add: test_iters_def)

lemma saves_list [simp]:
  "saves [] = 0" "saves (e # es) = (if is_save e then 1 else 0) + saves es"
  by (simp_all add: saves_def)

lemma test_iters_list [simp]:
  "test_iters [] = []" "test_iters (e # es) = test_iter e @ test_iters es"
  by (simp_all add: test_iters_def)

lemma backwards_append [simp]: "backwards (xs @ ys) = backwards xs @ backwards ys"
  by (simp add: backwards_def)

lemma backwards_list [simp]:
  "backwards [] = []" "backwards (e # es) = backward_of e @ backwards es"
  by (simp_all add: backwards_def)

lemma forwards_append [simp]: "forwards (xs @ ys) = forwards xs @ forwards ys"
  by (simp add: forwards_def)

lemma forwards_list [simp]:
  "forwards [] = []" "forwards (e # es) = forward_of e @ forwards es"
  by (simp_all add: forwards_def)

lemma same_but_out_refl [simp]: "same_but_out s s"
  by (simp add: same_but_out_def)

lemma same_but_out_trans: "same_but_out s s' \<Longrightarrow> same_but_out s' s'' \<Longrightarrow> same_but_out s s''"
  by (simp add: same_but_out_def)

lemma same_but_out_emit:
  "\<not> is_save e \<Longrightarrow> test_iter e = [] \<Longrightarrow> backward_of e = []
     \<Longrightarrow> same_but_out s (emit e s)"
  by (simp add: same_but_out_def emit_def)

lemma same_but_out_print [simp]: "same_but_out s (print_log l s)"
  by (simp add: print_log_def same_but_out_emit)

lemma add_scalars_frame: "same_but_out s (final (add_scalars xs s))"
proof (induction xs s rule: add_scalars.induct)
  case (1 s)
  then show ?case by simp
next
  case (2 tag vs i rest s)
  show ?case
  proof (cases "i < length vs")
    case True
    have "same_but_out s (emit (Add_scalar tag (vs ! i) (iter s)) s)"
      by (simp add: same_but_out_emit)
    with 2 True show ?thesis by (auto intro: same_but_out_trans)
  next
    case False
    then show ?thesis by simp
  qed
qed

lemma log_scalars_frame: "same_but_out s (final (log_scalars ms xs s))"
proof (induction ms xs s rule: log_scalars.induct)
  case (1 ms s)
  then show ?case by simp
next
  case (2 ms i rest s)
  show ?case
  proof (cases "meter_avg ms i")
    case (Inl e)
    then show ?thesis by simp
  next
    case (Inr v)
    have "same_but_out s (emit (Add_scalar (''train/'' @ i) v (iter s)) s)"
      by (simp add: same_but_out_emit)
    with 2 Inr show ?thesis by (auto intro: same_but_out_trans)
  qed
qed

lemma test_loop_frame: "same_but_out s (final (test_loop env xs acc s))"
proof (induction xs arbitrary: acc s)
  case Nil
  then show ?case by simp
next
  case (Cons x xs)
  obtain ff lf vl tl ll where acc: "acc = (ff, lf, vl, tl, ll)"
    by (cases acc) auto
  define s1 where "s1 = emit (Call_forward (training s) (grad_enabled s)) s"
  have a: "same_but_out s s1" by (simp add: s1_def same_but_out_emit)
  have ih: "\<And>acc'. same_but_out s (final (test_loop env xs acc' s1))"
    using a Cons.IH by (blast intro: same_but_out_trans)
  show ?case
  proof (cases "label x")
    case Nil
    with a show ?thesis
      by (simp add: acc s1_def [symmetric] Let_def split: prod.splits)
  next
    case (Cons l ls)
    show ?thesis
    proof (cases ls)
      case Nil
      with Cons ih show ?thesis
        by (simp add: acc s1_def [symmetric] Let_def split: prod.splits)
    next
      case (Cons l' ls')
      with \<open>label x = l # ls\<close> a show ?thesis
        by (simp add: acc s1_def [symmetric] Let_def split: prod.splits)
    qed
  qed
qed

declare add_scalars.simps [simp del] test_loop.simps [simp del] log_scalars.simps [simp del]

lemma test_report_final:
  "\<exists>xs. final (test_report env c acc s)
     = final (add_scalars xs (print_log Test_Local (print_log Test_Full s)))"
proof -
  obtain ff lf vl tl ll where acc: "acc = (ff, lf, vl, tl, ll)"
    by (cases acc) auto
  define xs where "xs = test_scalars (compute_accuracy env ff vl tl ll) (compute_accuracy env lf vl tl ll)"
  define s2 where "s2 = print_log Test_Local (print_log Test_Full s)"
  have "final (test_report env c acc s) = final (add_scalars xs s2)"
  proof (cases "add_scalars xs s2")
    case (Inl a)
    then show ?thesis
      by (cases a) (simp add: test_report_def acc Let_def xs_def [symmetric] s2_def [symmetric])
  next
    case (Inr b)
    then show ?thesis
      by (cases b)
         (simp add: test_report_def acc Let_def xs_def [symmetric] s2_def [symmetric]
            split: option.splits)
  qed
  then show ?thesis unfolding s2_def by blast
qed

lemma test_report_frame: "same_but_out s (final (test_report env c acc s))"
proof -
  obtain xs where "final (test_report env c acc s)
     = final (add_scalars xs (print_log Test_Local (print_log Test_Full s)))"
    using test_report_final by blast
  moreover have "same_but_out s (print_log Test_Local (print_log Test_Full s))"
    by (blast intro: same_but_out_trans same_but_out_print)
  ultimately show ?thesis
    using add_scalars_frame same_but_out_trans by metis
qed

lemma private_test_frame:
  "iter (final (private_test env c s)) = iter s
   \<and> train_pos (final (private_test env c s)) = train_pos s
   \<and> model (final (private_test env c s)) = model s
   \<and> grad_enabled (final (private_test env c s)) = grad_enabled s
   \<and> best_acc (final (private_test env c s)) = best_acc s
   \<and> best_iter (final (private_test env c s)) = best_iter s
   \<and> training (final (private_test env c s)) = False
   \<and> saves (out (final (private_test env c s))) = saves (out s)
   \<and> test_iters (out (final (private_test env c s))) = test_iters (out s) @ [iter s]
   \<and> backwards (out (final (private_test env c s))) = backwards (out s)"
proof -
  define s1 where "s1 = (emit (Call_test (iter s)) s)\<lparr>training := False\<rparr>"
  define r where "r = test_loop env (testloader env) ([], [], [], [], []) s1"
  have s1: "iter s1 = iter s" "train_pos s1 = train_pos s" "model s1 = model s"
    "grad_enabled s1 = grad_enabled s" "training s1 = False"
    "best_acc s1 = best_acc s" "best_iter s1 = best_iter s"
    "saves (out s1) = saves (out s)" "test_iters (out s1) = test_iters (out s) @ [iter s]"
    "backwards (out s1) = backwards (out s)"
    by (simp_all add: s1_def emit_def)
  have "same_but_out s1 (final (private_test env c s))"
  proof (cases r)
    case (Inl a)
    then show ?thesis using test_loop_frame [of s1 env "testloader env" "([], [], [], [], [])"]
      by (cases a) (simp add: private_test_def s1_def [symmetric] r_def [symmetric])
  next
    case (Inr b)
    obtain acc s2 where b: "b = (acc, s2)" by (cases b) auto
    have "same_but_out s1 s2"
      using test_loop_frame [of s1 env "testloader env" "([], [], [], [], [])"] Inr b
      by (simp add: r_def [symmetric])
    moreover have "same_but_out s2 (final (test_report env c acc s2))"
      by (rule test_report_frame)
    ultimately show ?thesis using Inr b
      by (simp add: private_test_def s1_def [symmetric] r_def [symmetric])
         (blast intro: same_but_out_trans)
  qed
  then show ?thesis using s1 by (simp add: same_but_out_def)
qed

lemma same_counters_refl [simp]: "same_counters s s"
  by (simp add: same_counters_def)

lemma same_counters_trans: "same_counters s s' \<Longrightarrow> same_counters s' s'' \<Longrightarrow> same_counters s s''"
  by (simp add: same_counters_def)

lemma same_but_out_counters: "same_but_out s s' \<Longrightarrow> same_counters s s'"
  by (simp add: same_but_out_def same_counters_def)

lemma begin_iteration_frame: "same_counters s (snd (begin_iteration env lv s))"
  by (simp add: begin_iteration_def read_clock_def same_counters_def Let_def)

lemma forward_loss_frame: "same_counters s (snd (forward_loss env b r s))"
  by (simp add: forward_loss_def same_counters_def emit_def Let_def split: prod.splits)

lemma backward_step_frame:
  "iter (backward_step env b r l s) = iter s"
  "train_pos (backward_step env b r l s) = train_pos s"
  "grad_enabled (backward_step env b r l s) = grad_enabled s"
  "saves (out (backward_step env b r l s)) = saves (out s)"
  "test_iters (out (backward_step env b r l s)) = test_iters (out s)"
  "backwards (out (backward_step env b r l s)) = backwards (out s) @ [loss l]"
  by (simp_all add: backward_step_def emit_def Let_def split: prod.splits)

lemma update_meters_frame: "same_counters s (snd (update_meters env l lv s))"
  by (simp add: update_meters_def read_clock_def same_counters_def Let_def)

lemma save_frame: "same_counters s (save env s)"
  by (simp add: save_def save_checkpoint_def print_log_def emit_def same_counters_def Let_def)

lemma collect_frame: "same_counters s (collect env acc s)"
  by (simp add: collect_def same_counters_def)

lemma schedule_frame:
  "iter (snd (schedule env s)) = iter s + 1 \<and> train_pos (snd (schedule env s)) = train_pos s
   \<and> grad_enabled (snd (schedule env s)) = grad_enabled s
   \<and> out (snd (schedule env s)) = out s"
  by (simp add: schedule_def lr_step_def Let_def)

lemma schedule_rates:
  "fst (schedule env s) =
     \<lparr>lr_backbone = lr_scheduler_backbone env (iter s), lr_top = lr_scheduler_top env (iter s),
      lr_local = lr_scheduler_local env (iter s), lw_early = early_loss_weight env (iter s),
      lw_local = local_loss_weight env (iter s)\<rparr>"
  by (simp add: schedule_def lr_step_def Let_def)

lemma show_log_frame: "same_counters s (final (show_log env c r lv s))"
proof (cases "log_interval c \<noteq> 0 \<and> iter s mod log_interval c = 0")
  case False
  then show ?thesis by (auto simp: show_log_def)
next
  case True
  show ?thesis
  proof (cases "meter_avg (meters lv) ''lossNum''")
    case (Inl e)
    with True show ?thesis by (simp add: show_log_def)
  next
    case num: (Inr num)
    show ?thesis
    proof (cases "meter_avg (meters lv) ''localNum''")
      case (Inl e)
      with True num show ?thesis by (simp add: show_log_def)
    next
      case lnum: (Inr lnum)
      define s1 where "s1 = print_log
                            (Iter_line (iter s) (num_iter c)
                               (msum (get_meter (meters lv) ''dataTime''))
                               (msum (get_meter (meters lv) ''modelTime''))
                               (lr_backbone r) (lr_top r) (lr_local r)
                               (lw_early r) (lw_local r) num lnum) s"
      define q where "q = log_scalars (meters lv)
                           [''earlyLoss'', ''localLoss'', ''lossNum'', ''localNum''] s1"
      have a: "same_counters s s1"
        by (simp add: s1_def same_but_out_counters)
      have b: "same_counters s1 (final q)"
        unfolding q_def by (rule same_but_out_counters [OF log_scalars_frame])
      have ab: "same_counters s (final q)"
        using a b by (rule same_counters_trans)
      show ?thesis
      proof (cases q)
        case (Inl x)
        with ab True num lnum show ?thesis
          by (cases x) (simp add: show_log_def s1_def [symmetric] q_def [symmetric])
      next
        case (Inr x)
        with ab True num lnum show ?thesis
          by (cases x)
             (simp add: show_log_def s1_def [symmetric] q_def [symmetric] same_counters_def
                emit_def)
      qed
    qed
  qed
qed

lemma show_log_Inr: "show_log env c r lv s = Inr x \<Longrightarrow> log_interval c \<noteq> 0"
  by (auto simp: show_log_def split: if_splits)

lemma periodic_test_frame:
  "iter (final (periodic_test env c s)) = iter s
   \<and> train_pos (final (periodic_test env c s)) = train_pos s
   \<and> grad_enabled (final (periodic_test env c s)) = grad_enabled s
   \<and> saves (out (final (periodic_test env c s))) = saves (out s)
   \<and> test_iters (out (final (periodic_test env c s)))
       = test_iters (out s)
         @ (if test_interval c \<noteq> 0 \<and> iter s mod test_interval c = 0 then [iter s] else [])
   \<and> backwards (out (final (periodic_test env c s))) = backwards (out s)"
proof (cases "test_interval c \<noteq> 0 \<and> iter s mod test_interval c = 0")
  case False
  then show ?thesis by (auto simp: periodic_test_def)
next
  case True
  note pt = private_test_frame [of env c s]
  show ?thesis
  proof (cases "private_test env c s")
    case (Inl x)
    with True pt show ?thesis by (cases x) (simp add: periodic_test_def)
  next
    case (Inr x)
    obtain acc s1 where x: "x = (acc, s1)" by (cases x) auto
    from Inr x pt True show ?thesis
      using collect_frame [of s1 env acc]
      by (simp add: periodic_test_def same_counters_def)
  qed
qed

lemma periodic_test_Inr: "periodic_test env c s = Inr x \<Longrightarrow> test_interval c \<noteq> 0"
  by (auto simp: periodic_test_def split: if_splits)

lemma train_iteration_unfold:
  "train_iteration env c b lv s =
     (case before_log env b lv s of (r, lv2, s5) \<Rightarrow>
        (case show_log env c r lv2 s5 of
           Inl e \<Rightarrow> Inl e
         | Inr (lv3, s6) \<Rightarrow>
            (case periodic_test env c (save env (emit (Call_save (iter s6)) s6)) of
               Inl e \<Rightarrow> Inl e
             | Inr (u, s8) \<Rightarrow> Inr (lv3, s8))))"
  by (simp add: train_iteration_def before_log_def Let_def case_prod_beta
      split: sum.splits)

lemma before_log_frame:
  assumes "before_log env b lv s = (r, lv2, s5)"
  shows "iter s5 = iter s + 1" "train_pos s5 = train_pos s" "grad_enabled s5 = grad_enabled s"
    "saves (out s5) = saves (out s)" "test_iters (out s5) = test_iters (out s)"
    "r = fst (schedule env (snd (begin_iteration env lv s)))"
proof -
  define p1 where "p1 = begin_iteration env lv s"
  define p2 where "p2 = schedule env (snd p1)"
  define p3 where "p3 = forward_loss env b (fst p2) (snd p2)"
  define s4 where "s4 = backward_step env b (fst p2) (fst p3) (snd p3)"
  define p5 where "p5 = update_meters env (fst p3) (fst p1) s4"
  have s5: "s5 = snd p5" and r: "r = fst p2"
    using assms by (auto simp: before_log_def Let_def p1_def p2_def p3_def s4_def p5_def)
  have 1: "same_counters s (snd p1)" unfolding p1_def by (rule begin_iteration_frame)
  have 2: "iter (snd p2) = iter (snd p1) + 1" "train_pos (snd p2) = train_pos (snd p1)"
    "grad_enabled (snd p2) = grad_enabled (snd p1)" "out (snd p2) = out (snd p1)"
    unfolding p2_def using schedule_frame [of env "snd p1"] by simp_all
  have 3: "same_counters (snd p2) (snd p3)" unfolding p3_def by (rule forward_loss_frame)
  have 4: "iter s4 = iter (snd p3)" "train_pos s4 = train_pos (snd p3)"
    "grad_enabled s4 = grad_enabled (snd p3)" "saves (out s4) = saves (out (snd p3))"
    "test_iters (out s4) = test_iters (out (snd p3))"
    unfolding s4_def by (rule backward_step_frame)+
  have 5: "same_counters s4 (snd p5)" unfolding p5_def by (rule update_meters_frame)
  from 1 2 3 4 5 show "iter s5 = iter s + 1" "train_pos s5 = train_pos s"
    "grad_enabled s5 = grad_enabled s"
    "saves (out s5) = saves (out s)" "test_iters (out s5) = test_iters (out s)"
    by (simp_all add: s5 same_counters_def)
  show "r = fst (schedule env (snd (begin_iteration env lv s)))"
    by (simp add: r p2_def p1_def)
qed

lemma after_save_frame:
  "iter (save env (emit (Call_save n) s)) = iter s"
  "train_pos (save env (emit (Call_save n) s)) = train_pos s"
  "grad_enabled (save env (emit (Call_save n) s)) = grad_enabled s"
  "saves (out (save env (emit (Call_save n) s))) = saves (out s) + 1"
  "test_iters (out (save env (emit (Call_save n) s))) = test_iters (out s)"
  "backwards (out (save env (emit (Call_save n) s))) = backwards (out s)"
  using save_frame [of "emit (Call_save n) s" env]
  by (simp_all add: same_counters_def emit_def)

lemma train_iteration_Inr:
  assumes "train_iteration env c b lv s = Inr (lv', s')"
  shows "iter s' = iter s + 1" "train_pos s' = train_pos s" "grad_enabled s' = grad_enabled s"
    "saves (out s') = saves (out s) + 1"
    "test_iters (out s')
       = test_iters (out s) @ (if (iter s + 1) mod test_interval c = 0 then [iter s + 1] else [])"
    "log_interval c \<noteq> 0" "test_interval c \<noteq> 0"
proof -
  obtain r lv2 s5 where bl: "before_log env b lv s = (r, lv2, s5)"
    by (cases "before_log env b lv s") auto
  note f5 = before_log_frame [OF bl]
  obtain lv3 s6 where sl: "show_log env c r lv2 s5 = Inr (lv3, s6)"
    using assms bl by (auto simp: train_iteration_unfold split: sum.splits)
  define s7 where "s7 = save env (emit (Call_save (iter s6)) s6)"
  obtain u where pt: "periodic_test env c s7 = Inr (u, s')"
    using assms bl sl by (auto simp: train_iteration_unfold s7_def split: sum.splits)
  have f6: "same_counters s5 s6"
    using show_log_frame [of s5 env c r lv2] sl by simp
  note f7 = after_save_frame [of env "iter s6" s6, folded s7_def]
  note f8 = periodic_test_frame [of env c s7]
  show "log_interval c \<noteq> 0" using sl by (rule show_log_Inr)
  show ti: "test_interval c \<noteq> 0" using pt by (rule periodic_test_Inr)
  from f5 f6 f7 f8 pt ti show "iter s' = iter s + 1" "train_pos s' = train_pos s"
    "grad_enabled s' = grad_enabled s" "saves (out s') = saves (out s) + 1"
    "test_iters (out s')
       = test_iters (out s) @ (if (iter s + 1) mod test_interval c = 0 then [iter s + 1] else [])"
    by (simp_all add: same_counters_def)
qed

lemma train_iteration_Inl:
  assumes "train_iteration env c b lv s = Inl (e, s')"
  shows "iter s' = iter s + 1" "train_pos s' = train_pos s" "grad_enabled s' = grad_enabled s"
    "saves (out s') \<le> saves (out s) + 1"
    "test_iters (out s') = test_iters (out s)
     \<or> test_iters (out s') = test_iters (out s) @ [iter s + 1]
        \<and> test_interval c \<noteq> 0 \<and> (iter s + 1) mod test_interval c = 0"
proof -
  obtain r lv2 s5 where bl: "before_log env b lv s = (r, lv2, s5)"
    by (cases "before_log env b lv s") auto
  note f5 = before_log_frame [OF bl]
  have goal: "iter s' = iter s + 1 \<and> train_pos s' = train_pos s
    \<and> grad_enabled s' = grad_enabled s \<and> saves (out s') \<le> saves (out s) + 1
    \<and> (test_iters (out s') = test_iters (out s)
     \<or> test_iters (out s') = test_iters (out s) @ [iter s + 1]
        \<and> test_interval c \<noteq> 0 \<and> (iter s + 1) mod test_interval c = 0)"
  proof (cases "show_log env c r lv2 s5")
    case (Inl x)
    then have "show_log env c r lv2 s5 = Inl (e, s')"
      using assms bl by (simp add: train_iteration_unfold)
    then have "same_counters s5 s'"
      using show_log_frame [of s5 env c r lv2] by simp
    with f5 show ?thesis by (simp add: same_counters_def)
  next
    case (Inr x)
    obtain lv3 s6 where x: "x = (lv3, s6)" by (cases x) auto
    define s7 where "s7 = save env (emit (Call_save (iter s6)) s6)"
    have pt: "periodic_test env c s7 = Inl (e, s')"
      using assms bl Inr x by (auto simp: train_iteration_unfold s7_def split: sum.splits)
    have f6: "same_counters s5 s6"
      using show_log_frame [of s5 env c r lv2] Inr x by simp
    note f7 = after_save_frame [of env "iter s6" s6, folded s7_def]
    note f8 = periodic_test_frame [of env c s7]
    from f5 f6 f7 f8 pt show ?thesis
      by (simp add: same_counters_def split: if_splits)
  qed
  then show "iter s' = iter s + 1" "train_pos s' = train_pos s" "grad_enabled s' = grad_enabled s"
    "saves (out s') \<le> saves (out s) + 1"
    "test_iters (out s') = test_iters (out s)
     \<or> test_iters (out s') = test_iters (out s) @ [iter s + 1]
        \<and> test_interval c \<noteq> 0 \<and> (iter s + 1) mod test_interval c = 0"
    by blast+
qed

section \<open>Properties of the training iteration\<close>

lemma train_iteration_iter: "iter (final (train_iteration env c b lv s)) = iter s + 1"
proof (cases "train_iteration env c b lv s")
  case (Inl x)
  then show ?thesis using train_iteration_Inl(1) [of env c b lv s "fst x" "snd x"]
    by (cases x) simp
next
  case (Inr x)
  then show ?thesis using train_iteration_Inr(1) [of env c b lv s "fst x" "snd x"]
    by (cases x) simp
qed

lemma mcount_update_meter:
  "mcount (get_meter (update_meter n v ms) k)
     = (if k = n then mcount (get_meter ms n) + 1 else mcount (get_meter ms k))"
  by (simp add: update_meter_def get_meter_def Let_def)

lemma update_meters_counts:
  assumes "name \<in> {''earlyLoss'', ''localLoss'', ''lossNum'', ''localNum''}"
  shows "mcount (get_meter (meters (fst (update_meters env l lv s))) name) \<noteq> 0"
  using assms
  by (auto simp: update_meters_def Let_def mcount_update_meter split: prod.splits)

lemma before_log_counts:
  assumes "name \<in> {''earlyLoss'', ''localLoss'', ''lossNum'', ''localNum''}"
  shows "mcount (get_meter (meters (fst (snd (before_log env b lv s)))) name) \<noteq> 0"
  using update_meters_counts [OF assms] by (simp add: before_log_def Let_def)

lemma log_scalars_returns:
  "\<forall>i \<in> set names. mcount (get_meter ms i) \<noteq> 0 \<Longrightarrow> \<exists>s'. log_scalars ms names s = Inr ((), s')"
  by (induction names arbitrary: s) (auto simp: log_scalars.simps meter_avg_def Let_def)

lemma show_log_returns:
  assumes "\<forall>i \<in> {''earlyLoss'', ''localLoss'', ''lossNum'', ''localNum''}.
             mcount (get_meter (meters lv) i) \<noteq> 0"
    and "log_interval c \<noteq> 0"
  shows "\<exists>lv' s'. show_log env c r lv s = Inr (lv', s')"
proof (cases "iter s mod log_interval c = 0")
  case False
  with assms(2) show ?thesis by (simp add: show_log_def)
next
  case True
  have n: "mcount (get_meter (meters lv) ''lossNum'') \<noteq> 0"
    and l: "mcount (get_meter (meters lv) ''localNum'') \<noteq> 0"
    using assms(1) by simp_all
  define num where "num = fdivn (msum (get_meter (meters lv) ''lossNum''))
      (mcount (get_meter (meters lv) ''lossNum''))"
  define lnum where "lnum = fdivn (msum (get_meter (meters lv) ''localNum''))
      (mcount (get_meter (meters lv) ''localNum''))"
  define s1 where "s1 = print_log
                            (Iter_line (iter s) (num_iter c)
                               (msum (get_meter (meters lv) ''dataTime''))
                               (msum (get_meter (meters lv) ''modelTime''))
                               (lr_backbone r) (lr_top r) (lr_local r)
                               (lw_early r) (lw_local r) num lnum) s"
  obtain s2 where s2: "log_scalars (meters lv)
      [''earlyLoss'', ''localLoss'', ''lossNum'', ''localNum''] s1 = Inr ((), s2)"
    using log_scalars_returns [of "[''earlyLoss'', ''localLoss'', ''lossNum'', ''localNum'']"
        "meters lv" s1] assms(1) by auto
  have "show_log env c r lv s
      = Inr (lv\<lparr>meters := reset_meters (meters lv)\<rparr>, emit Call_show_info s2)"
    using True assms(2) n l s2
    by (simp add: show_log_def meter_avg_def Let_def num_def lnum_def s1_def)
  then show ?thesis by blast
qed

lemma train_iteration_log_zero:
  assumes "log_interval c = 0"
  shows "train_iteration env c b lv s
           = Inl (ZeroDivisionError, snd (snd (before_log env b lv s)))"
  using assms by (simp add: train_iteration_unfold show_log_def case_prod_beta)

lemma train_iteration_saves:
  "saves (out (final (train_iteration env c b lv s)))
     = saves (out s) + (if log_interval c = 0 then 0 else 1)"
proof (cases "log_interval c = 0")
  case True
  obtain r lv2 s5 where bl: "before_log env b lv s = (r, lv2, s5)"
    by (cases "before_log env b lv s") auto
  from before_log_frame(4) [OF bl] True bl show ?thesis
    by (simp add: train_iteration_log_zero)
next
  case False
  obtain r lv2 s5 where bl: "before_log env b lv s = (r, lv2, s5)"
    by (cases "before_log env b lv s") auto
  note f5 = before_log_frame [OF bl]
  have "\<forall>i \<in> {''earlyLoss'', ''localLoss'', ''lossNum'', ''localNum''}.
             mcount (get_meter (meters lv2) i) \<noteq> 0"
    using before_log_counts [of _ env b lv s] bl by simp
  then obtain lv3 s6 where sl: "show_log env c r lv2 s5 = Inr (lv3, s6)"
    using show_log_returns [of lv2 c env r s5] False by blast
  define s7 where "s7 = save env (emit (Call_save (iter s6)) s6)"
  have ti: "train_iteration env c b lv s
      = (case periodic_test env c s7 of Inl e \<Rightarrow> Inl e | Inr (u, s8) \<Rightarrow> Inr (lv3, s8))"
    using bl sl by (simp add: train_iteration_unfold s7_def)
  have f6: "same_counters s5 s6"
    using show_log_frame [of s5 env c r lv2] sl by simp
  note f7 = after_save_frame [of env "iter s6" s6, folded s7_def]
  note f8 = periodic_test_frame [of env c s7]
  have "final (train_iteration env c b lv s) = final (periodic_test env c s7)"
    by (simp add: ti final_def split: sum.splits prod.splits)
  with f5 f6 f7 f8 False show ?thesis by (simp add: same_counters_def)
qed

text \<open>
  C1. An iteration is what its body is with the five scheduled values taken at the
  value the counter has when the iteration starts: those are the rates installed in
  the three optimizers and the weights the loss, the backward pass and the log line
  work with, and the counter is one higher from the forward pass on. \<open>schedule\<close>
  returns these values and only then increments. Whether the iteration returns or
  raises, it leaves the counter exactly one higher.
\<close>

theorem schedules_use_counter_before_increment:
  "train_iteration env c b lv s =
     (let (lv1, s1) = begin_iteration env lv s;
          r = rates_at env (iter s);
          s2 = s1\<lparr>optimizer_backbone := (optimizer_backbone s1)\<lparr>lr := lr_backbone r\<rparr>,
                  optimizer_top := (optimizer_top s1)\<lparr>lr := lr_top r\<rparr>,
                  optimizer_local := (optimizer_local s1)\<lparr>lr := lr_local r\<rparr>,
                  iter := iter s + 1\<rparr>;
          (l, s3) = forward_loss env b r s2;
          s4 = backward_step env b r l s3;
          (lv2, s5) = update_meters env l lv1 s4
      in case show_log env c r lv2 s5 of
           Inl e \<Rightarrow> Inl e
         | Inr (lv3, s6) \<Rightarrow>
            (case periodic_test env c (save env (emit (Call_save (iter s6)) s6)) of
               Inl e \<Rightarrow> Inl e
             | Inr (u, s8) \<Rightarrow> Inr (lv3, s8)))
   \<and> fst (schedule env s) = rates_at env (iter s)
   \<and> iter (snd (schedule env s)) = iter s + 1
   \<and> lr (optimizer_backbone (snd (schedule env s))) = lr_scheduler_backbone env (iter s)
   \<and> lr (optimizer_top (snd (schedule env s))) = lr_scheduler_top env (iter s)
   \<and> lr (optimizer_local (snd (schedule env s))) = lr_scheduler_local env (iter s)
   \<and> fst (before_log env b lv s) = rates_at env (iter s)
   \<and> iter (final (train_iteration env c b lv s)) = iter s + 1"
proof -
  have a: "fst (schedule env s) = rates_at env (iter s)" for s :: "('a, 'b, 'c) solver"
    by (simp add: schedule_rates rates_at_def)
  have b: "iter (snd (begin_iteration env lv s)) = iter s"
    using begin_iteration_frame [of s env lv] by (simp add: same_counters_def)
  have c: "fst (before_log env b lv s) = rates_at env (iter s)"
    using before_log_frame(6) [of env b lv s "fst (before_log env b lv s)"
        "fst (snd (before_log env b lv s))" "snd (snd (before_log env b lv s))"] a b
    by simp
  obtain lv1 s1 where bi: "begin_iteration env lv s = (lv1, s1)"
    by (cases "begin_iteration env lv s") auto
  have i1: "iter s1 = iter s" using b bi by simp
  have sc: "schedule env s1
      = (rates_at env (iter s),
         s1\<lparr>optimizer_backbone := (optimizer_backbone s1)\<lparr>lr := lr_backbone (rates_at env (iter s))\<rparr>,
            optimizer_top := (optimizer_top s1)\<lparr>lr := lr_top (rates_at env (iter s))\<rparr>,
            optimizer_local := (optimizer_local s1)\<lparr>lr := lr_local (rates_at env (iter s))\<rparr>,
            iter := iter s + 1\<rparr>)"
    by (simp add: schedule_def lr_step_def Let_def rates_at_def i1)
  have d: "train_iteration env c b lv s =
     (let (lv1, s1) = begin_iteration env lv s;
          r = rates_at env (iter s);
          s2 = s1\<lparr>optimizer_backbone := (optimizer_backbone s1)\<lparr>lr := lr_backbone r\<rparr>,
                  optimizer_top := (optimizer_top s1)\<lparr>lr := lr_top r\<rparr>,
                  optimizer_local := (optimizer_local s1)\<lparr>lr := lr_local r\<rparr>,
                  iter := iter s + 1\<rparr>;
          (l, s3) = forward_loss env b r s2;
          s4 = backward_step env b r l s3;
          (lv2, s5) = update_meters env l lv1 s4
      in case show_log env c r lv2 s5 of
           Inl e \<Rightarrow> Inl e
         | Inr (lv3, s6) \<Rightarrow>
            (case periodic_test env c (save env (emit (Call_save (iter s6)) s6)) of
               Inl e \<Rightarrow> Inl e
             | Inr (u, s8) \<Rightarrow> Inr (lv3, s8)))"
    unfolding train_iteration_def bi
    by (simp add: sc Let_def split: prod.splits sum.splits)
  show ?thesis
    using a c d train_iteration_iter [of env c b lv s]
    by (simp add: schedule_def lr_step_def Let_def)
qed

text \<open>
  C2. An iteration calls \<open>save\<close> exactly once when \<open>log_interval\<close> is not zero, whether
  it returns or raises afterwards and whatever \<open>test_interval\<close> and the evaluation
  give; when \<open>log_interval\<close> is zero it does not call it at all.
\<close>

theorem save_once_unless_log_interval_zero:
  "saves (out (final (train_iteration env c b lv s)))
     = saves (out s) + (if log_interval c = 0 then 0 else 1)"
  by (rule train_iteration_saves)

theorem save_once_unless_log_interval_zero_witness:
  "log_interval cfg0 \<noteq> 0
   \<and> saves (out (final (train_iteration env0 cfg0 batch0 lv0 solver0))) = 1"
  using save_once_unless_log_interval_zero [of env0 cfg0 batch0 lv0 solver0]
  by (simp add: cfg0_def solver0_def)

text \<open>
  With \<open>log_interval = 0\<close> the test of source line 169 raises before line 190 is
  reached: the first iteration of the small instance ends after its backward pass,
  without a call of \<open>save\<close>.
\<close>

theorem no_save_when_log_interval_zero:
  "train_iteration env0 (cfg0\<lparr>log_interval := 0\<rparr>) batch0 lv0 solver0
     = Inl (ZeroDivisionError, snd (snd (before_log env0 batch0 lv0 solver0)))
   \<and> out (snd (snd (before_log env0 batch0 lv0 solver0)))
       = [Call_forward True True, Call_backward (Fin 1)]
   \<and> saves (out (final (train_iteration env0 (cfg0\<lparr>log_interval := 0\<rparr>) batch0 lv0 solver0))) = 0"
proof -
  have a: "out (snd (snd (before_log env0 batch0 lv0 solver0)))
       = [Call_forward True True, Call_backward (Fin 1)]"
    by (simp add: before_log_def begin_iteration_def schedule_def lr_step_def forward_loss_def
        backward_step_def update_meters_def read_clock_def emit_def Let_def
        env0_def batch0_def lv0_def solver0_def)
  have b: "train_iteration env0 (cfg0\<lparr>log_interval := 0\<rparr>) batch0 lv0 solver0
     = Inl (ZeroDivisionError, snd (snd (before_log env0 batch0 lv0 solver0)))"
    by (rule train_iteration_log_zero) simp
  show ?thesis using a b by simp
qed

text \<open>
  C9. When the configured optimizer is neither \<open>'SGD'\<close> nor \<open>'Adam'\<close>,
  \<open>build_optimizer\<close> raises \<open>ValueError\<close> and leaves the solver as it was, and
  \<open>train\<close> ends with that error right after building the model: no output has been
  written and no batch has been pulled from the train loader.
\<close>

theorem unknown_optimizer_raises:
  assumes "optimizer c \<noteq> ''SGD''" and "optimizer c \<noteq> ''Adam''"
  shows "build_optimizer env c s = Inl (ValueError, s)
       \<and> train env c s = Some (Inl (ValueError, s\<lparr>model := init_model env\<rparr>))"
  using assms by (simp add: build_optimizer_def train_def)

theorem unknown_optimizer_raises_witness:
  "train env0 (cfg0\<lparr>optimizer := ''RMSprop''\<rparr>) solver0 = Some (Inl (ValueError, solver0))
   \<and> train_pos solver0 = 0 \<and> out solver0 = []"
  using unknown_optimizer_raises [of "cfg0\<lparr>optimizer := ''RMSprop''\<rparr>" env0 solver0]
  by (simp add: cfg0_def env0_def solver0_def)

section \<open>Properties of the evaluation pass\<close>

lemma batches_read_all: "\<forall>x \<in> set xs. length (label x) = 1 \<Longrightarrow> batches_read xs = length xs"
  by (induction xs) simp_all

lemma single_label: "length ls = 1 \<longleftrightarrow> (\<exists>l. ls = [l])"
  by (cases ls) auto

lemma test_loop_step:
  "test_loop env (x # xs) (ff, lf, vl, sl, ll) s =
     (if length (label x) = 1
      then test_loop env xs
             (ff @ [fst (forward env (training s) (model s) (seq x))],
              lf @ [snd (forward env (training s) (model s) (seq x))],
              vl @ view x, sl @ seq_type x, ll @ [hd (label x)])
             (emit (Call_forward (training s) (grad_enabled s)) s)
      else Inl (TensorItemError, emit (Call_forward (training s) (grad_enabled s)) s))"
proof (cases "label x")
  case Nil
  then show ?thesis by (simp add: test_loop.simps Let_def emit_def split: prod.splits)
next
  case (Cons l ls)
  then show ?thesis
    by (cases ls) (simp_all add: test_loop.simps Let_def emit_def split: prod.splits)
qed

lemma test_loop_forwards:
  "forwards (out (final (test_loop env xs acc s)))
     = forwards (out s) @ replicate (batches_read xs) (training s, grad_enabled s)"
proof (induction xs arbitrary: acc s)
  case Nil
  then show ?case by (simp add: test_loop.simps)
next
  case (Cons x xs)
  obtain ff lf vl sl ll where acc: "acc = (ff, lf, vl, sl, ll)"
    by (cases acc) auto
  show ?case
    by (simp add: acc test_loop_step Cons.IH) (simp add: emit_def replicate_append_same)
qed

lemma test_loop_raises:
  "(\<exists>s'. test_loop env xs acc s = Inl (e, s'))
     \<longleftrightarrow> e = TensorItemError \<and> (\<exists>x \<in> set xs. length (label x) \<noteq> 1)"
proof (induction xs arbitrary: acc s)
  case Nil
  then show ?case by (simp add: test_loop.simps)
next
  case (Cons x xs)
  obtain ff lf vl sl ll where acc: "acc = (ff, lf, vl, sl, ll)"
    by (cases acc) auto
  show ?case
    by (auto simp: acc test_loop_step Cons.IH)
qed

lemma add_scalars_raises: "add_scalars xs s = Inl (e, s') \<Longrightarrow> e = IndexError"
  by (induction xs s rule: add_scalars.induct) (auto simp: add_scalars.simps split: if_splits)

lemma add_scalars_forwards: "forwards (out (final (add_scalars xs s))) = forwards (out s)"
  by (induction xs s rule: add_scalars.induct) (auto simp: add_scalars.simps emit_def)

lemma test_report_raises:
  "test_report env c acc s = Inl (e, s') \<Longrightarrow> e = IndexError \<or> e = KeyError"
  by (auto simp: test_report_def Let_def dest: add_scalars_raises
      split: prod.splits sum.splits option.splits if_splits)

lemma test_report_forwards: "forwards (out (final (test_report env c acc s))) = forwards (out s)"
proof -
  obtain xs where "final (test_report env c acc s)
     = final (add_scalars xs (print_log Test_Local (print_log Test_Full s)))"
    using test_report_final by blast
  then show ?thesis by (simp add: add_scalars_forwards) (simp add: print_log_def emit_def)
qed

lemma private_test_forwards:
  "forwards (out (final (private_test env c s)))
     = forwards (out s) @ replicate (batches_read (testloader env)) (False, grad_enabled s)"
proof -
  define s1 where "s1 = (emit (Call_test (iter s)) s)\<lparr>training := False\<rparr>"
  define r where "r = test_loop env (testloader env) ([], [], [], [], []) s1"
  have s1: "training s1 = False" "grad_enabled s1 = grad_enabled s"
    "forwards (out s1) = forwards (out s)"
    by (simp_all add: s1_def emit_def)
  have lp: "forwards (out (final r))
      = forwards (out s) @ replicate (batches_read (testloader env)) (False, grad_enabled s)"
    unfolding r_def using test_loop_forwards [of env "testloader env" "([], [], [], [], [])" s1]
    by (simp add: s1)
  show ?thesis
  proof (cases r)
    case (Inl a)
    then show ?thesis using lp
      by (cases a) (simp add: private_test_def s1_def [symmetric] r_def [symmetric])
  next
    case (Inr b)
    obtain acc s2 where b: "b = (acc, s2)" by (cases b) auto
    show ?thesis using lp Inr b
      by (simp add: private_test_def s1_def [symmetric] r_def [symmetric] test_report_forwards)
  qed
qed

lemma private_test_item_error:
  "(\<exists>s'. private_test env c s = Inl (TensorItemError, s'))
     \<longleftrightarrow> (\<exists>x \<in> set (testloader env). length (label x) \<noteq> 1)"
proof -
  define s1 where "s1 = (emit (Call_test (iter s)) s)\<lparr>training := False\<rparr>"
  define r where "r = test_loop env (testloader env) ([], [], [], [], []) s1"
  note lp = test_loop_raises [of env "testloader env" "([], [], [], [], [])" s1, folded r_def]
  show ?thesis
  proof (cases r)
    case (Inl a)
    obtain e s' where a: "a = (e, s')" by (cases a) auto
    from Inl a lp [of e] show ?thesis
      by (auto simp: private_test_def s1_def [symmetric] r_def [symmetric])
  next
    case (Inr b)
    obtain acc s2 where b: "b = (acc, s2)" by (cases b) auto
    have "\<not> (\<exists>x \<in> set (testloader env). length (label x) \<noteq> 1)"
      using lp [of TensorItemError] Inr by simp
    moreover have "\<not> (\<exists>s'. test_report env c acc s2 = Inl (TensorItemError, s'))"
      using test_report_raises [of env c acc s2 TensorItemError] by auto
    ultimately show ?thesis using Inr b
      by (simp add: private_test_def s1_def [symmetric] r_def [symmetric])
  qed
qed

text \<open>
  C8. An evaluation pass, whether it returns or raises, leaves the model as it was
  and ends in evaluation mode; it does not touch the gradient mode: every forward
  pass runs in evaluation mode with the gradient mode the pass was entered with.
  It runs one forward pass per test batch up to the first batch whose label is not
  a single element, so one per batch of the loader when every label is.
\<close>

theorem evaluation_keeps_model_and_gradient_mode:
  "model (final (private_test env c s)) = model s
   \<and> training (final (private_test env c s)) = False
   \<and> grad_enabled (final (private_test env c s)) = grad_enabled s
   \<and> forwards (out (final (private_test env c s)))
       = forwards (out s) @ replicate (batches_read (testloader env)) (False, grad_enabled s)
   \<and> ((\<forall>x \<in> set (testloader env). length (label x) = 1)
        \<longrightarrow> batches_read (testloader env) = length (testloader env))"
  using private_test_frame [of env c s] private_test_forwards [of env c s]
  by (simp add: batches_read_all)

theorem evaluation_keeps_model_and_gradient_mode_witness:
  "testloader env0 = [batch0] \<and> length (label batch0) = 1
   \<and> model (final (private_test env0 cfg0 solver0)) = 0
   \<and> training (final (private_test env0 cfg0 solver0)) = False
   \<and> length (forwards (out (final (private_test env0 cfg0 solver0)))) = length (testloader env0)"
  using evaluation_keeps_model_and_gradient_mode [of env0 cfg0 solver0]
  by (simp add: env0_def batch0_def solver0_def)

text \<open>
  \<open>_test\<close> calls \<open>model.eval()\<close> and nothing that switches gradient tracking off: entered
  with tracking on, the forward pass of the small instance runs with tracking on.
\<close>

theorem evaluation_runs_with_gradient_tracking:
  "grad_enabled solver0 = True
   \<and> private_test env0 cfg0 solver0
       = Inr ([Fin 1],
              solver0\<lparr>out := [Call_test 0, Call_forward False True, Print Test_Full,
                               Print Test_Local, Add_scalar ''test/fullAcc'' (Fin 1) 0,
                               Add_scalar ''test/localAcc'' (Fin 1) 0]\<rparr>)"
  by (simp add: private_test_def test_loop.simps test_report_def test_scalars_def
      add_scalars.simps print_log_def emit_def Let_def env0_def batch0_def cfg0_def solver0_def)

text \<open>
  C10. An evaluation pass fails in \<open>label.item()\<close> exactly when the test loader holds a
  batch whose label tensor is not a single element.
\<close>

theorem evaluation_aborts_on_multi_sample_batch:
  "(\<exists>s'. private_test env c s = Inl (TensorItemError, s'))
     \<longleftrightarrow> (\<exists>x \<in> set (testloader env). length (label x) \<noteq> 1)"
  by (rule private_test_item_error)

theorem evaluation_aborts_on_multi_sample_batch_witness:
  "(\<exists>x \<in> set (testloader (env0\<lparr>testloader := [batch0, batch2]\<rparr>)). length (label x) \<noteq> 1)
   \<and> (\<exists>s'. private_test (env0\<lparr>testloader := [batch0, batch2]\<rparr>) cfg0 solver0
              = Inl (TensorItemError, s'))"
  using evaluation_aborts_on_multi_sample_batch [of "env0\<lparr>testloader := [batch0, batch2]\<rparr>" cfg0 solver0]
  by (simp add: batch0_def batch2_def)

section \<open>Properties of the loss\<close>

lemma before_log_backwards:
  "backwards (out (snd (snd (before_log env b lv s))))
     = backwards (out s)
       @ [fadd (fmul (early_loss_weight env (iter s)) (early_term env b s))
               (fmul (local_loss_weight env (iter s)) (local_term env b s))]"
  by (simp add: before_log_def begin_iteration_def schedule_def lr_step_def forward_loss_def
      backward_step_def update_meters_def read_clock_def emit_def Let_def case_prod_beta
      early_term_def local_term_def)

lemma train_iteration_backwards:
  "backwards (out (final (train_iteration env c b lv s)))
     = backwards (out (snd (snd (before_log env b lv s))))"
proof -
  obtain r lv2 s5 where bl: "before_log env b lv s = (r, lv2, s5)"
    by (cases "before_log env b lv s") auto
  show ?thesis
  proof (cases "show_log env c r lv2 s5")
    case (Inl x)
    then have "final (train_iteration env c b lv s) = final (show_log env c r lv2 s5)"
      using bl by (simp add: train_iteration_unfold)
    then show ?thesis
      using show_log_frame [of s5 env c r lv2] bl by (simp add: same_counters_def)
  next
    case (Inr x)
    obtain lv3 s6 where x: "x = (lv3, s6)" by (cases x) auto
    define s7 where "s7 = save env (emit (Call_save (iter s6)) s6)"
    have ti: "train_iteration env c b lv s
        = (case periodic_test env c s7 of Inl e \<Rightarrow> Inl e | Inr (u, s8) \<Rightarrow> Inr (lv3, s8))"
      using bl Inr x by (simp add: train_iteration_unfold s7_def)
    have f6: "same_counters s5 s6"
      using show_log_frame [of s5 env c r lv2] Inr x by simp
    note f7 = after_save_frame [of env "iter s6" s6, folded s7_def]
    note f8 = periodic_test_frame [of env c s7]
    have "final (train_iteration env c b lv s) = final (periodic_test env c s7)"
      by (simp add: ti final_def split: sum.splits prod.splits)
    with f6 f7 f8 bl show ?thesis by (simp add: same_counters_def)
  qed
qed

lemma unit_weights:
  "fadd (fmul (Fin 1) e) (fmul (Fin 0) (Fin x)) = e" "fadd (fmul (Fin 1) e) (Fin 0) = e"
  by (cases e; simp)+

text \<open>
  C5. The loss an iteration hands to the backward pass, whether the iteration returns
  or raises later, is the early weight times the early term plus the local weight
  times the local term, with the weights of the counter's value on entry and both
  terms from the one loss kernel against the label of the batch. With the weights
  1 and 0 and a finite local term it is the early term.
\<close>

theorem total_loss_is_weighted_sum:
  "backwards (out (final (train_iteration env c b lv s)))
     = backwards (out s)
       @ [fadd (fmul (early_loss_weight env (iter s)) (early_term env b s))
               (fmul (local_loss_weight env (iter s)) (local_term env b s))]
   \<and> (early_loss_weight env (iter s) = Fin 1 \<and> local_loss_weight env (iter s) = Fin 0
        \<and> local_term env b s = Fin x
        \<longrightarrow> backwards (out (final (train_iteration env c b lv s)))
              = backwards (out s) @ [early_term env b s])"
  by (simp add: train_iteration_backwards before_log_backwards unit_weights)

theorem total_loss_is_weighted_sum_witness:
  "early_loss_weight env0 (iter solver0) = Fin 1 \<and> local_loss_weight env0 (iter solver0) = Fin 0
   \<and> local_term env0 batch0 solver0 = Fin 2 \<and> early_term env0 batch0 solver0 = Fin 1
   \<and> backwards (out (final (train_iteration env0 cfg0 batch0 lv0 solver0))) = [Fin 1]"
  using total_loss_is_weighted_sum [of env0 cfg0 batch0 lv0 solver0 2]
  by (simp add: early_term_def local_term_def env0_def batch0_def solver0_def)

text \<open>
  A local term that is not a number is not cancelled by a weight of zero: with the
  weights 1 and 0 and an early term of 1 the loss is not a number.
\<close>

theorem zero_weight_does_not_cancel_nan:
  "early_loss_weight env_nan (iter solver0) = Fin 1
   \<and> local_loss_weight env_nan (iter solver0) = Fin 0
   \<and> early_term env_nan batch0 solver0 = Fin 1
   \<and> local_term env_nan batch0 solver0 = NaN
   \<and> backwards (out (final (train_iteration env_nan cfg0 batch0 lv0 solver0))) = [NaN]"
  by (simp add: train_iteration_backwards before_log_backwards
      early_term_def local_term_def env_nan_def env0_def batch0_def solver0_def)

section \<open>Properties of the training loop\<close>

lemma train_iteration_tests:
  "test_iters (out (final (train_iteration env c b lv s)))
     = test_iters (out s)
       @ (if log_interval c \<noteq> 0 \<and> test_interval c \<noteq> 0 \<and> (iter s + 1) mod test_interval c = 0
          then [iter s + 1] else [])"
proof (cases "log_interval c = 0")
  case True
  obtain r lv2 s5 where bl: "before_log env b lv s = (r, lv2, s5)"
    by (cases "before_log env b lv s") auto
  from before_log_frame(5) [OF bl] True bl show ?thesis
    by (simp add: train_iteration_log_zero)
next
  case False
  obtain r lv2 s5 where bl: "before_log env b lv s = (r, lv2, s5)"
    by (cases "before_log env b lv s") auto
  note f5 = before_log_frame [OF bl]
  have "\<forall>i \<in> {''earlyLoss'', ''localLoss'', ''lossNum'', ''localNum''}.
             mcount (get_meter (meters lv2) i) \<noteq> 0"
    using before_log_counts [of _ env b lv s] bl by simp
  then obtain lv3 s6 where sl: "show_log env c r lv2 s5 = Inr (lv3, s6)"
    using show_log_returns [of lv2 c env r s5] False by blast
  define s7 where "s7 = save env (emit (Call_save (iter s6)) s6)"
  have ti: "train_iteration env c b lv s
      = (case periodic_test env c s7 of Inl e \<Rightarrow> Inl e | Inr (u, s8) \<Rightarrow> Inr (lv3, s8))"
    using bl sl by (simp add: train_iteration_unfold s7_def)
  have f6: "same_counters s5 s6"
    using show_log_frame [of s5 env c r lv2] sl by simp
  note f7 = after_save_frame [of env "iter s6" s6, folded s7_def]
  note f8 = periodic_test_frame [of env c s7]
  have "final (train_iteration env c b lv s) = final (periodic_test env c s7)"
    by (simp add: ti final_def split: sum.splits prod.splits)
  with f5 f6 f7 f8 False show ?thesis by (simp add: same_counters_def)
qed

lemma train_iteration_train_pos:
  "train_pos (final (train_iteration env c b lv s)) = train_pos s"
proof (cases "train_iteration env c b lv s")
  case (Inl x)
  then show ?thesis using train_iteration_Inl(2) [of env c b lv s "fst x" "snd x"]
    by (cases x) simp
next
  case (Inr x)
  then show ?thesis using train_iteration_Inr(2) [of env c b lv s "fst x" "snd x"]
    by (cases x) simp
qed

lemma train_iteration_returns:
  assumes "log_interval c \<noteq> 0" and "test_interval c \<noteq> 0"
    and "\<forall>s. \<exists>x. private_test env c s = Inr x"
  shows "\<exists>lv' s'. train_iteration env c b lv s = Inr (lv', s')"
proof -
  obtain r lv2 s5 where bl: "before_log env b lv s = (r, lv2, s5)"
    by (cases "before_log env b lv s") auto
  have "\<forall>i \<in> {''earlyLoss'', ''localLoss'', ''lossNum'', ''localNum''}.
             mcount (get_meter (meters lv2) i) \<noteq> 0"
    using before_log_counts [of _ env b lv s] bl by simp
  then obtain lv3 s6 where sl: "show_log env c r lv2 s5 = Inr (lv3, s6)"
    using show_log_returns [of lv2 c env r s5] assms(1) by blast
  define s7 where "s7 = save env (emit (Call_save (iter s6)) s6)"
  have ti: "train_iteration env c b lv s
      = (case periodic_test env c s7 of Inl e \<Rightarrow> Inl e | Inr (u, s8) \<Rightarrow> Inr (lv3, s8))"
    using bl sl by (simp add: train_iteration_unfold s7_def)
  obtain x where "private_test env c s7 = Inr x" using assms(3) by blast
  then have "\<exists>y. periodic_test env c s7 = Inr y"
    using assms(2) by (cases x) (simp add: periodic_test_def)
  then show ?thesis by (auto simp: ti)
qed

lemma final_summary_frame:
  "iter (final_summary env st s) = iter s"
  "train_pos (final_summary env st s) = train_pos s"
  "test_iters (out (final_summary env st s)) = test_iters (out s)"
  "out (final_summary env st s)
     = out s @ [Print (Best_summary (best_acc s) (best_iter s) (work_dir env)
                         (now env (ticks s) - st))]"
  by (simp_all add: final_summary_def read_clock_def print_log_def emit_def)

lemma read_clock_frame:
  "iter (snd (read_clock env s)) = iter s"
  "train_pos (snd (read_clock env s)) = train_pos s"
  "out (snd (read_clock env s)) = out s"
  by (simp_all add: read_clock_def)

lemma train_loop_tests:
  assumes "train_loop env c st lv s = Some r"
  shows "log_interval c \<noteq> 0 \<longrightarrow>
         iter s \<le> iter (final r)
         \<and> test_iters (out (final r))
             = test_iters (out s)
               @ filter (\<lambda>n. test_interval c \<noteq> 0 \<and> n mod test_interval c = 0)
                   [iter s + 1 .. iter (final r)]"
  using assms
proof (induction env c st lv s r rule: train_loop.raw_induct)
  case (1 loop env c st lv s r)
  show ?case
  proof (cases "trainloader env (train_pos s)")
    case None
    with 1(2) have "r = Inr ((), s)" by simp
    then show ?thesis by simp
  next
    case (Some b)
    define s0 where "s0 = s\<lparr>train_pos := train_pos s + 1\<rparr>"
    have s0: "iter s0 = iter s" "out s0 = out s" by (simp_all add: s0_def)
    note it = train_iteration_iter [of env c b lv s0]
    note tt = train_iteration_tests [of env c b lv s0]
    show ?thesis
    proof (cases "train_iteration env c b lv s0")
      case (Inl x)
      with 1(2) Some have r: "r = Inl x" by (simp add: s0_def)
      obtain e s' where x: "x = (e, s')" by (cases x) auto
      from it tt Inl r x s0 show ?thesis by auto
    next
      case (Inr x)
      obtain lv1 s1 where x: "x = (lv1, s1)" by (cases x) auto
      have i1: "iter s1 = iter s + 1" using it Inr x s0 by simp
      have t1: "log_interval c \<noteq> 0 \<Longrightarrow> test_iters (out s1)
         = test_iters (out s)
           @ filter (\<lambda>n. test_interval c \<noteq> 0 \<and> n mod test_interval c = 0) [iter s + 1]"
        using tt Inr x s0 by simp
      show ?thesis
      proof (cases "iter s1 = num_iter c")
        case True
        with 1(2) Some Inr x have r: "r = Inr ((), final_summary env st s1)"
          by (simp add: s0_def)
        show ?thesis using t1 i1 by (simp add: r final_summary_frame)
      next
        case False
        have a: "loop env c st (lv1\<lparr>end_time := fst (read_clock env s1)\<rparr>)
                (snd (read_clock env s1)) = Some r"
          using 1(2) Some Inr x False by (simp add: s0_def)
        have b: "train_loop env c st (lv1\<lparr>end_time := fst (read_clock env s1)\<rparr>)
                (snd (read_clock env s1)) = Some r"
          using 1(3) Some Inr x False by (subst (asm) train_loop.simps) (simp add: s0_def)
        have ih: "log_interval c \<noteq> 0 \<longrightarrow>
           iter s1 \<le> iter (final r)
           \<and> test_iters (out (final r))
               = test_iters (out s1)
                 @ filter (\<lambda>n. test_interval c \<noteq> 0 \<and> n mod test_interval c = 0)
                     [iter s1 + 1 .. iter (final r)]"
          using 1(1) [OF a b] by (simp add: read_clock_frame)
        show ?thesis
        proof
          assume li: "log_interval c \<noteq> 0"
          with ih have le: "iter s + 1 \<le> iter (final r)" by (simp add: i1)
          have "[iter s + 1 .. iter (final r)] = (iter s + 1) # [iter s + 1 + 1 .. iter (final r)]"
            using le by (rule upto_rec1)
          with ih li t1 le show "iter s \<le> iter (final r)
             \<and> test_iters (out (final r))
               = test_iters (out s)
                 @ filter (\<lambda>n. test_interval c \<noteq> 0 \<and> n mod test_interval c = 0)
                     [iter s + 1 .. iter (final r)]"
            by (simp add: i1)
        qed
      qed
    qed
  qed
qed (rule assms)

lemma train_loop_terminates:
  assumes "\<forall>k. trainloader env k \<noteq> None" and "iter s + int (Suc d) = num_iter c"
  shows "\<exists>r. train_loop env c st lv s = Some r
     \<and> iter s < iter (final r) \<and> iter (final r) \<le> num_iter c
     \<and> train_pos (final r) = train_pos s + nat (iter (final r) - iter s)
     \<and> (returned r \<longrightarrow>
           iter (final r) = num_iter c \<and> out (final r) \<noteq> []
           \<and> last (out (final r))
               = Print (Best_summary (best_acc (final r)) (best_iter (final r)) (work_dir env)
                          (now env (ticks (final r) - 1) - st)))
     \<and> (log_interval c \<noteq> 0 \<and> test_interval c \<noteq> 0
          \<and> (\<forall>s. \<exists>x. private_test env c s = Inr x) \<longrightarrow> returned r)"
  using assms(2)
proof (induction d arbitrary: lv s)
  case 0
  obtain b where b: "trainloader env (train_pos s) = Some b"
    using assms(1) by auto
  define s0 where "s0 = s\<lparr>train_pos := train_pos s + 1\<rparr>"
  have s0: "iter s0 = iter s" "train_pos s0 = train_pos s + 1" by (simp_all add: s0_def)
  note it = train_iteration_iter [of env c b lv s0]
  note tp = train_iteration_train_pos [of env c b lv s0]
  show ?case
  proof (cases "train_iteration env c b lv s0")
    case (Inl x)
    have r: "train_loop env c st lv s = Some (Inl x)"
      using b Inl by (subst train_loop.simps) (simp add: s0_def)
    obtain e s' where x: "x = (e, s')" by (cases x) auto
    have "\<not> (log_interval c \<noteq> 0 \<and> test_interval c \<noteq> 0
          \<and> (\<forall>s. \<exists>x. private_test env c s = Inr x))"
    proof
      assume "log_interval c \<noteq> 0 \<and> test_interval c \<noteq> 0
          \<and> (\<forall>s. \<exists>x. private_test env c s = Inr x)"
      then obtain lv' s' where "train_iteration env c b lv s0 = Inr (lv', s')"
        using train_iteration_returns [of c env b lv s0] by blast
      with Inl show False by simp
    qed
    with it tp Inl x s0 0 show ?thesis
      by (simp add: r returned_def)
  next
    case (Inr x)
    obtain lv1 s1 where x: "x = (lv1, s1)" by (cases x) auto
    have i1: "iter s1 = iter s + 1" "train_pos s1 = train_pos s + 1"
      using it tp Inr x s0 by simp_all
    have r: "train_loop env c st lv s = Some (Inr ((), final_summary env st s1))"
      using b Inr x i1 0 by (subst train_loop.simps) (simp add: s0_def)
    show ?thesis using i1 0
      by (simp add: r returned_def final_summary_frame)
         (simp add: final_summary_def read_clock_def print_log_def emit_def)
  qed
next
  case (Suc d)
  obtain b where b: "trainloader env (train_pos s) = Some b"
    using assms(1) by auto
  define s0 where "s0 = s\<lparr>train_pos := train_pos s + 1\<rparr>"
  have s0: "iter s0 = iter s" "train_pos s0 = train_pos s + 1" by (simp_all add: s0_def)
  note it = train_iteration_iter [of env c b lv s0]
  note tp = train_iteration_train_pos [of env c b lv s0]
  show ?case
  proof (cases "train_iteration env c b lv s0")
    case (Inl x)
    have r: "train_loop env c st lv s = Some (Inl x)"
      using b Inl by (subst train_loop.simps) (simp add: s0_def)
    obtain e s' where x: "x = (e, s')" by (cases x) auto
    have "\<not> (log_interval c \<noteq> 0 \<and> test_interval c \<noteq> 0
          \<and> (\<forall>s. \<exists>x. private_test env c s = Inr x))"
    proof
      assume "log_interval c \<noteq> 0 \<and> test_interval c \<noteq> 0
          \<and> (\<forall>s. \<exists>x. private_test env c s = Inr x)"
      then obtain lv' s' where "train_iteration env c b lv s0 = Inr (lv', s')"
        using train_iteration_returns [of c env b lv s0] by blast
      with Inl show False by simp
    qed
    with it tp Inl x s0 Suc.prems show ?thesis
      by (simp add: r returned_def)
  next
    case (Inr x)
    obtain lv1 s1 where x: "x = (lv1, s1)" by (cases x) auto
    have i1: "iter s1 = iter s + 1" "train_pos s1 = train_pos s + 1"
      using it tp Inr x s0 by simp_all
    define lv2 where "lv2 = lv1\<lparr>end_time := fst (read_clock env s1)\<rparr>"
    define s2 where "s2 = snd (read_clock env s1)"
    have i2: "iter s2 = iter s + 1" "train_pos s2 = train_pos s + 1"
      using i1 by (simp_all add: s2_def read_clock_frame)
    have ne: "iter s1 \<noteq> num_iter c" using i1 Suc.prems by simp
    have r: "train_loop env c st lv s = train_loop env c st lv2 s2"
      using b Inr x ne by (subst train_loop.simps) (simp add: s0_def lv2_def s2_def)
    have "iter s2 + int (Suc d) = num_iter c" using i2 Suc.prems by simp
    from Suc.IH [OF this, of lv2] obtain r' where r':
      "train_loop env c st lv2 s2 = Some r'"
      "iter s2 < iter (final r')" "iter (final r') \<le> num_iter c"
      "train_pos (final r') = train_pos s2 + nat (iter (final r') - iter s2)"
      "returned r' \<longrightarrow>
           iter (final r') = num_iter c \<and> out (final r') \<noteq> []
           \<and> last (out (final r'))
               = Print (Best_summary (best_acc (final r')) (best_iter (final r')) (work_dir env)
                          (now env (ticks (final r') - 1) - st))"
      "log_interval c \<noteq> 0 \<and> test_interval c \<noteq> 0
          \<and> (\<forall>s. \<exists>x. private_test env c s = Inr x) \<longrightarrow> returned r'"
      by blast
    have "train_pos (final r') = train_pos s + nat (iter (final r') - iter s)"
      using r'(2,4) i2 by simp
    with r' i2 show ?thesis
      by (intro exI [of _ r']) (simp add: r)
  qed
qed

lemma private_test_env0: "\<exists>x. private_test env0 cfg0 s = Inr x"
  by (simp add: private_test_def test_loop.simps test_report_def test_scalars_def
      add_scalars.simps print_log_def emit_def Let_def env0_def batch0_def cfg0_def)

text \<open>
  C6. An iteration runs the evaluation exactly when neither interval is zero and the
  counter after the increment is a multiple of \<open>test_interval\<close>, and then once, at that
  counter. Over a training loop with a non-zero \<open>log_interval\<close> the evaluations are,
  in order, those at the multiples of \<open>test_interval\<close> among the counters the loop
  went through.
\<close>

theorem evaluator_runs_at_multiples_of_test_interval:
  "test_iters (out (final (train_iteration env c b lv s)))
     = test_iters (out s)
       @ (if log_interval c \<noteq> 0 \<and> test_interval c \<noteq> 0 \<and> (iter s + 1) mod test_interval c = 0
          then [iter s + 1] else [])
   \<and> (log_interval c \<noteq> 0 \<and> train_loop env c st lv s = Some r \<longrightarrow>
        test_iters (out (final r))
          = test_iters (out s)
            @ filter (\<lambda>n. test_interval c \<noteq> 0 \<and> n mod test_interval c = 0)
                [iter s + 1 .. iter (final r)])"
  using train_iteration_tests [of env c b lv s] train_loop_tests [of env c st lv s r]
  by simp

text \<open>The small instance: ten iterations, evaluations at the counters 5 and 10.\<close>

theorem evaluator_runs_at_multiples_of_test_interval_witness:
  "\<exists>r. train_loop env0 cfg0 0 lv0 solver0 = Some r \<and> iter (final r) = 10
       \<and> test_iters (out (final r)) = [5, 10]"
proof -
  have "\<forall>k. trainloader env0 k \<noteq> None" by (simp add: env0_def)
  moreover have "iter solver0 + int (Suc 9) = num_iter cfg0"
    by (simp add: solver0_def cfg0_def)
  ultimately obtain r where r: "train_loop env0 cfg0 0 lv0 solver0 = Some r"
    "returned r \<longrightarrow> iter (final r) = num_iter cfg0"
    "log_interval cfg0 \<noteq> 0 \<and> test_interval cfg0 \<noteq> 0
          \<and> (\<forall>s. \<exists>x. private_test env0 cfg0 s = Inr x) \<longrightarrow> returned r"
    using train_loop_terminates [of env0 solver0 9 cfg0 0 lv0] by blast
  have "log_interval cfg0 \<noteq> 0" "test_interval cfg0 \<noteq> 0" by (simp_all add: cfg0_def)
  with r(3) private_test_env0 have "returned r" by blast
  with r(2) have i: "iter (final r) = 10" by (simp add: cfg0_def)
  have "test_iters (out (final r))
      = test_iters (out solver0)
        @ filter (\<lambda>n. test_interval cfg0 \<noteq> 0 \<and> n mod test_interval cfg0 = 0)
            [iter solver0 + 1 .. iter (final r)]"
    using evaluator_runs_at_multiples_of_test_interval [of env0 cfg0 batch0 lv0 solver0 0 r] r(1) \<open>log_interval cfg0 \<noteq> 0\<close>
    by simp
  then have "test_iters (out (final r)) = [5, 10]"
    by (simp add: i cfg0_def solver0_def upto_rec1)
  with r(1) i show ?thesis by blast
qed

text \<open>
  With \<open>log_interval = 0\<close> the first iteration raises at source line 169: its counter, 1,
  is a multiple of \<open>test_interval = 1\<close>, and the evaluation of line 194 is not reached.
\<close>

theorem no_evaluation_when_log_interval_zero:
  "(iter solver0 + 1) mod test_interval (cfg0\<lparr>log_interval := 0, test_interval := 1\<rparr>) = 0
   \<and> train_iteration env0 (cfg0\<lparr>log_interval := 0, test_interval := 1\<rparr>) batch0 lv0 solver0
       = Inl (ZeroDivisionError, snd (snd (before_log env0 batch0 lv0 solver0)))
   \<and> test_iters (out (final
         (train_iteration env0 (cfg0\<lparr>log_interval := 0, test_interval := 1\<rparr>) batch0 lv0 solver0)))
       = []"
proof -
  have "train_iteration env0 (cfg0\<lparr>log_interval := 0, test_interval := 1\<rparr>) batch0 lv0 solver0
       = Inl (ZeroDivisionError, snd (snd (before_log env0 batch0 lv0 solver0)))"
    by (rule train_iteration_log_zero) simp
  then show ?thesis
    using train_iteration_tests
      [of env0 "cfg0\<lparr>log_interval := 0, test_interval := 1\<rparr>" batch0 lv0 solver0]
    by (simp add: solver0_def)
qed





end
